theory Spec2Isabelle
  imports Complex_Main
begin

section \<open>JavaScript numbers\<close>

text \<open>
  The component \<^verbatim>\<open>InventoryOptimizer\<close> computes with the TypeScript type \<^verbatim>\<open>number\<close>.
  A \<^verbatim>\<open>number\<close> is modelled as a finite value or one of the three special values of
  IEEE 754 that the arithmetic of the component can produce: \<^verbatim>\<open>NaN\<close>, \<^verbatim>\<open>Infinity\<close>
  and \<^verbatim>\<open>-Infinity\<close>. Finite values are rationals, and the sign of zero is not modelled.
  The operations \<open>num_add\<close>, \<open>num_mul\<close> and \<open>num_div\<close> are exact; the festival planner,
  where the rounding of a product to 53 bits changes what \<^verbatim>\<open>Math.round\<close> returns, computes
  with the rounded operations of the subsection on double precision. Division by zero, the
  propagation of \<^verbatim>\<open>NaN\<close> through arithmetic, \<^verbatim>\<open>Math.min\<close>, \<^verbatim>\<open>Math.round\<close>, \<^verbatim>\<open>toFixed\<close>
  and the comparisons with \<^verbatim>\<open>NaN\<close> follow ECMAScript.
\<close>

datatype number = Fin rat | NaN | PosInf | NegInf

text \<open>\<^verbatim>\<open>a + b\<close>\<close>

fun num_add :: "number \<Rightarrow> number \<Rightarrow> number" where
  "num_add (Fin a) (Fin b) = Fin (a + b)"
| "num_add NaN b = NaN"
| "num_add a NaN = NaN"
| "num_add PosInf NegInf = NaN"
| "num_add NegInf PosInf = NaN"
| "num_add PosInf b = PosInf"
| "num_add a PosInf = PosInf"
| "num_add NegInf b = NegInf"
| "num_add a NegInf = NegInf"

fun num_neg :: "number \<Rightarrow> number" where
  "num_neg (Fin a) = Fin (- a)"
| "num_neg NaN = NaN"
| "num_neg PosInf = NegInf"
| "num_neg NegInf = PosInf"

text \<open>\<^verbatim>\<open>a - b\<close>\<close>

definition num_sub :: "number \<Rightarrow> number \<Rightarrow> number" where
  "num_sub a b = num_add a (num_neg b)"

text \<open>\<^verbatim>\<open>a * b\<close>: an infinity times zero is \<^verbatim>\<open>NaN\<close>.\<close>

fun num_mul :: "number \<Rightarrow> number \<Rightarrow> number" where
  "num_mul (Fin a) (Fin b) = Fin (a * b)"
| "num_mul NaN b = NaN"
| "num_mul a NaN = NaN"
| "num_mul PosInf (Fin b) = (if b = 0 then NaN else if 0 < b then PosInf else NegInf)"
| "num_mul NegInf (Fin b) = (if b = 0 then NaN else if 0 < b then NegInf else PosInf)"
| "num_mul (Fin a) PosInf = (if a = 0 then NaN else if 0 < a then PosInf else NegInf)"
| "num_mul (Fin a) NegInf = (if a = 0 then NaN else if 0 < a then NegInf else PosInf)"
| "num_mul PosInf PosInf = PosInf"
| "num_mul NegInf NegInf = PosInf"
| "num_mul PosInf NegInf = NegInf"
| "num_mul NegInf PosInf = NegInf"

text \<open>
  \<^verbatim>\<open>a / b\<close>: zero divided by zero is \<^verbatim>\<open>NaN\<close>, any other finite value divided by zero
  is an infinity (the zero divisor is taken as \<^verbatim>\<open>+0\<close>).
\<close>

fun num_div :: "number \<Rightarrow> number \<Rightarrow> number" where
  "num_div (Fin a) (Fin b) =
     (if b \<noteq> 0 then Fin (a / b)
      else if a = 0 then NaN
      else if 0 < a then PosInf else NegInf)"
| "num_div NaN b = NaN"
| "num_div a NaN = NaN"
| "num_div (Fin a) PosInf = Fin 0"
| "num_div (Fin a) NegInf = Fin 0"
| "num_div PosInf (Fin b) = (if 0 \<le> b then PosInf else NegInf)"
| "num_div NegInf (Fin b) = (if 0 \<le> b then NegInf else PosInf)"
| "num_div PosInf b = NaN"
| "num_div NegInf b = NaN"

text \<open>\<^verbatim>\<open>a < b\<close>: false as soon as one side is \<^verbatim>\<open>NaN\<close>.\<close>

fun num_lt :: "number \<Rightarrow> number \<Rightarrow> bool" where
  "num_lt (Fin a) (Fin b) = (a < b)"
| "num_lt NaN b = False"
| "num_lt a NaN = False"
| "num_lt a NegInf = False"
| "num_lt PosInf b = False"
| "num_lt NegInf b = True"
| "num_lt a PosInf = True"

text \<open>\<^verbatim>\<open>a > b\<close>\<close>

definition num_gt :: "number \<Rightarrow> number \<Rightarrow> bool" where
  "num_gt a b = num_lt b a"

text \<open>\<^verbatim>\<open>a <= b\<close>\<close>

fun num_le :: "number \<Rightarrow> number \<Rightarrow> bool" where
  "num_le NaN b = False"
| "num_le a NaN = False"
| "num_le a b = (\<not> num_lt b a)"

text \<open>\<^verbatim>\<open>Math.min(a, b)\<close> and \<^verbatim>\<open>Math.max(a, b)\<close>: \<^verbatim>\<open>NaN\<close> if an argument is \<^verbatim>\<open>NaN\<close>.\<close>

fun Math_min :: "number \<Rightarrow> number \<Rightarrow> number" where
  "Math_min NaN b = NaN"
| "Math_min a NaN = NaN"
| "Math_min a b = (if num_lt b a then b else a)"

fun Math_max :: "number \<Rightarrow> number \<Rightarrow> number" where
  "Math_max NaN b = NaN"
| "Math_max a NaN = NaN"
| "Math_max a b = (if num_lt a b then b else a)"

text \<open>\<^verbatim>\<open>Math.min(a, b, c)\<close>\<close>

definition Math_min3 :: "number \<Rightarrow> number \<Rightarrow> number \<Rightarrow> number" where
  "Math_min3 a b c = Math_min (Math_min a b) c"

text \<open>\<^verbatim>\<open>Math.round(x)\<close> is \<open>\<lfloor>x + 1/2\<rfloor>\<close>: halves go up.\<close>

fun Math_round :: "number \<Rightarrow> number" where
  "Math_round (Fin x) = Fin (of_int \<lfloor>x + 1 / 2\<rfloor>)"
| "Math_round NaN = NaN"
| "Math_round PosInf = PosInf"
| "Math_round NegInf = NegInf"

text \<open>
  \<^verbatim>\<open>Number(x.toFixed(2))\<close>: the nearest multiple of 1/100, halves away from zero;
  \<^verbatim>\<open>toFixed\<close> prints a value of magnitude \<open>10\<^sup>2\<^sup>1\<close> or more, \<^verbatim>\<open>NaN\<close> and the infinities
  as \<^verbatim>\<open>String\<close> does, and \<^verbatim>\<open>Number\<close> reads them back unchanged.
\<close>

fun toFixed2 :: "number \<Rightarrow> number" where
  "toFixed2 (Fin x) =
     (if 10 ^ 21 \<le> \<bar>x\<bar> then Fin x
      else Fin (sgn x * of_int \<lfloor>\<bar>x\<bar> * 100 + 1 / 2\<rfloor> / 100))"
| "toFixed2 NaN = NaN"
| "toFixed2 PosInf = PosInf"
| "toFixed2 NegInf = NegInf"

text \<open>Truthiness of a number, and \<^verbatim>\<open>a || b\<close> on numbers: \<^verbatim>\<open>0\<close> and \<^verbatim>\<open>NaN\<close> are falsy.\<close>

fun truthy :: "number \<Rightarrow> bool" where
  "truthy (Fin x) = (x \<noteq> 0)"
| "truthy NaN = False"
| "truthy PosInf = True"
| "truthy NegInf = True"

definition num_or :: "number \<Rightarrow> number \<Rightarrow> number" where
  "num_or a b = (if truthy a then a else b)"

text \<open>\<^verbatim>\<open>xs.reduce((sum, x) => sum + f(x), 0)\<close>\<close>

definition reduce_sum :: "('a \<Rightarrow> number) \<Rightarrow> 'a list \<Rightarrow> number" where
  "reduce_sum f xs = foldl (\<lambda>sum x. num_add sum (f x)) (Fin 0) xs"

subsection \<open>Double precision\<close>

text \<open>
  Where the rounding of a result to a double decides the outcome, the arithmetic is that
  of IEEE 754 binary64: the exact result rounded to the nearest number with a significand
  of 53 bits, ties to the even significand, with gradual underflow below \<open>2\<^sup>-\<^sup>1\<^sup>0\<^sup>2\<^sup>2\<close> and
  overflow to an infinity from \<open>2\<^sup>1\<^sup>0\<^sup>2\<^sup>4\<close> on.
\<close>

text \<open>The number of binary digits of a positive integer.\<close>

function bit_length :: "int \<Rightarrow> int" where
  "bit_length n = (if n \<le> 0 then 0 else 1 + bit_length (n div 2))"
  by pat_completeness auto
termination
  by (relation "measure nat") auto

declare bit_length.simps [simp del]

text \<open>The exponent \<open>e\<close> of a positive rational \<open>a\<close>: \<open>2\<^sup>e \<le> a < 2\<^sup>e\<^sup>+\<^sup>1\<close>.\<close>

definition binary_exponent :: "rat \<Rightarrow> int" where
  "binary_exponent a =
     (case quotient_of a of
        (p, q) \<Rightarrow>
          (let e = bit_length p - bit_length q
           in if 2 powi e \<le> a then e else e - 1))"

text \<open>The nearest integer, ties to the even one.\<close>

definition round_half_even :: "rat \<Rightarrow> int" where
  "round_half_even q =
     (let f = \<lfloor>q\<rfloor>; r = q - of_int f
      in if r < 1 / 2 then f
         else if 1 / 2 < r then f + 1
         else if even f then f else f + 1)"

text \<open>The double nearest to a rational.\<close>

definition to_double :: "rat \<Rightarrow> number" where
  "to_double x =
     (if x = 0 then Fin 0
      else
        (let e = max (binary_exponent \<bar>x\<bar>) (- 1022);
             ulp = 2 powi (e - 52);
             y = of_int (round_half_even (\<bar>x\<bar> / ulp)) * ulp
         in if 2 powi 1024 \<le> y then (if 0 < x then PosInf else NegInf)
            else Fin (sgn x * y)))"

text \<open>
  A number as the double it is. Every number the component holds is a double; a finite
  value of the model that is not one stands for the double nearest to it, as a decimal
  literal of the source does.
\<close>

fun as_double :: "number \<Rightarrow> number" where
  "as_double (Fin x) = to_double x"
| "as_double NaN = NaN"
| "as_double PosInf = PosInf"
| "as_double NegInf = NegInf"

text \<open>\<^verbatim>\<open>a * b\<close> and \<^verbatim>\<open>a - b\<close> on doubles, rounded to a double.\<close>

definition double_mul :: "number \<Rightarrow> number \<Rightarrow> number" where
  "double_mul a b = as_double (num_mul (as_double a) (as_double b))"

definition double_sub :: "number \<Rightarrow> number \<Rightarrow> number" where
  "double_sub a b = as_double (num_sub (as_double a) (as_double b))"

section \<open>The record store\<close>

record EnhancedInventoryData =
  sku :: string
  warehouse :: string
  product_category :: string
  current_stock :: number
  forecast_demand :: number
  actual_demand :: number
  production_capacity :: number
  unit_cost :: number
  holding_cost_rate :: number
  stockout_penalty :: number
  lead_time_days :: number
  shelf_life_days :: number
  is_festival_sensitive :: bool

record ProductionConstraint =
  factory_location :: string
  weekly_capacity :: number
  efficiency_rate :: number
  production_cost_per_unit :: number

text \<open>
  The field \<^verbatim>\<open>lead_time_days\<close> of a supplier is \<open>supplier_lead_time_days\<close> here, field
  names of records being global.
\<close>

record Supplier =
  supplier_id :: string
  material_type :: string
  reliability_score :: number
  supplier_lead_time_days :: number
  moq :: number
  unit_price :: number
  quality_rating :: number

section \<open>The festival plan\<close>

text \<open>
  The three lists of \<^verbatim>\<open>mockFestivalPlan\<close>. Fields that share a name with a field of another
  record carry the prefix of their list (\<open>fd_\<close>, \<open>ps_\<close>, \<open>ib_\<close>).
\<close>

record FestivalDemand =
  fd_sku :: string
  baseDemand :: number
  festivalDemand :: number
  surgeFactor :: number

record ProductionSchedule =
  ps_factory :: string
  weeklyCapacity :: number
  festivalCapacityNeeded :: number
  additionalShiftsRequired :: number

record InventoryBuildup =
  ib_sku :: string
  ib_currentStock :: number
  festivalRequirement :: number
  buildupNeeded :: number
  startDate :: string
  targetDate :: string

record FestivalPlan =
  demandForecast :: "FestivalDemand list"
  productionSchedule :: "ProductionSchedule list"
  inventoryBuildup :: "InventoryBuildup list"

text \<open>
  The state of the component that the handlers read: the three collections, the festival
  plan (\<^verbatim>\<open>null\<close> until one is computed) and the multiplier.
\<close>

record Store =
  inventoryData :: "EnhancedInventoryData list"
  productionConstraints :: "ProductionConstraint list"
  suppliers :: "Supplier list"
  festivalPlan :: "FestivalPlan option"
  festivalMultiplier :: number

text \<open>\<^verbatim>\<open>const currentMultiplier = Number(festivalMultiplier) || 1.35\<close>\<close>

definition currentMultiplier :: "number \<Rightarrow> number" where
  "currentMultiplier m = num_or m (Fin 1.35)"

text \<open>\<^verbatim>\<open>item.is_festival_sensitive ? currentMultiplier : 1\<close>\<close>

definition surge :: "number \<Rightarrow> EnhancedInventoryData \<Rightarrow> number" where
  "surge m item = (if is_festival_sensitive item then m else Fin 1)"

text \<open>\<^verbatim>\<open>handleFestivalPlanning\<close>: the plan handed to \<^verbatim>\<open>setFestivalPlan\<close>.\<close>

definition handleFestivalPlanning :: "Store \<Rightarrow> FestivalPlan" where
  "handleFestivalPlanning st =
     (let currentMultiplier = currentMultiplier (festivalMultiplier st) in
      \<lparr> demandForecast = map (\<lambda>item.
          \<lparr> fd_sku = sku item,
            baseDemand = forecast_demand item,
            festivalDemand =
              Math_round (double_mul (forecast_demand item) (surge currentMultiplier item)),
            surgeFactor = surge currentMultiplier item \<rparr>) (inventoryData st),
        productionSchedule = map (\<lambda>constraint.
          \<lparr> ps_factory = factory_location constraint,
            weeklyCapacity = weekly_capacity constraint,
            festivalCapacityNeeded =
              Math_round (double_mul (weekly_capacity constraint) currentMultiplier),
            additionalShiftsRequired = Fin 2 \<rparr>) (productionConstraints st),
        inventoryBuildup = map (\<lambda>item.
          \<lparr> ib_sku = sku item,
            ib_currentStock = current_stock item,
            festivalRequirement =
              Math_round (double_mul (forecast_demand item) (surge currentMultiplier item)),
            buildupNeeded =
              Math_max (Fin 0)
                (double_sub
                   (Math_round (double_mul (forecast_demand item) (surge currentMultiplier item)))
                   (current_stock item)),
            startDate = ''2025-09-15'',
            targetDate = ''2025-10-01'' \<rparr>) (inventoryData st) \<rparr>)"

section \<open>The optimizer\<close>

text \<open>
  \<^verbatim>\<open>getEffectiveDemand\<close>: the festival demand of the first entry of the plan for this
  \<^verbatim>\<open>sku\<close> when there is a plan with such an entry (an object is truthy), the forecast
  demand otherwise.
\<close>

definition getEffectiveDemand :: "FestivalPlan option \<Rightarrow> EnhancedInventoryData \<Rightarrow> number" where
  "getEffectiveDemand plan item =
     (let festivalEntry =
        (case plan of
           None \<Rightarrow> None
         | Some p \<Rightarrow> find (\<lambda>fd. fd_sku fd = sku item) (demandForecast p))
      in case festivalEntry of
           Some e \<Rightarrow> festivalDemand e
         | None \<Rightarrow> forecast_demand item)"

record Allocation =
  factory :: string
  allocatedDemand :: number
  capacity :: number
  utilizationRate :: number

text \<open>\<^verbatim>\<open>Number(((allocated / capacity) * 100).toFixed(2))\<close>\<close>

definition utilization :: "number \<Rightarrow> number \<Rightarrow> number" where
  "utilization allocated cap = toFixed2 (num_mul (num_div allocated cap) (Fin 100))"

text \<open>
  The proportional pass: \<^verbatim>\<open>productionConstraints.map\<close> with its callback, which reads and
  decrements \<^verbatim>\<open>remainingProduction\<close>. The pass returns the allocations and what
  remains.
\<close>

fun proportional_pass ::
  "number \<Rightarrow> number \<Rightarrow> number \<Rightarrow> ProductionConstraint list \<Rightarrow> Allocation list \<times> number" where
  "proportional_pass productionNeeded totalCapacity remainingProduction [] =
     ([], remainingProduction)"
| "proportional_pass productionNeeded totalCapacity remainingProduction (f # fs) =
     (let capacityRatio = num_div (weekly_capacity f) totalCapacity;
          targetAllocation = Math_round (num_mul productionNeeded capacityRatio);
          actualAllocation = Math_min3 targetAllocation (weekly_capacity f) remainingProduction;
          (rest, r) = proportional_pass productionNeeded totalCapacity
                        (num_sub remainingProduction actualAllocation) fs
      in (\<lparr> factory = factory_location f,
             allocatedDemand = actualAllocation,
             capacity = weekly_capacity f,
             utilizationRate = utilization actualAllocation (weekly_capacity f) \<rparr> # rest, r))"

text \<open>
  The body of \<^verbatim>\<open>for (let alloc of productionAllocation)\<close>: a factory with spare capacity
  takes what it can of the remainder, and the loop breaks once nothing remains.
\<close>

fun redistribute :: "number \<Rightarrow> Allocation list \<Rightarrow> Allocation list \<times> number" where
  "redistribute remainingProduction [] = ([], remainingProduction)"
| "redistribute remainingProduction (alloc # allocs) =
     (let spareCapacity = num_sub (capacity alloc) (allocatedDemand alloc) in
      if num_gt spareCapacity (Fin 0) then
        (let additional = Math_min spareCapacity remainingProduction;
             allocated = num_add (allocatedDemand alloc) additional;
             alloc' = alloc\<lparr> allocatedDemand := allocated,
                            utilizationRate := utilization allocated (capacity alloc) \<rparr>;
             remaining = num_sub remainingProduction additional
         in if num_le remaining (Fin 0) then (alloc' # allocs, remaining)
            else (let (rest, r) = redistribute remaining allocs in (alloc' # rest, r)))
      else (let (rest, r) = redistribute remainingProduction allocs in (alloc # rest, r)))"

text \<open>\<^verbatim>\<open>productionNeeded = Math.max(0, totalOptimalStock - totalCurrentStock)\<close>\<close>

definition productionNeeded :: "Store \<Rightarrow> number" where
  "productionNeeded st =
     (let totalCurrentStock = reduce_sum current_stock (inventoryData st);
          totalOptimalStock =
            reduce_sum (\<lambda>item. Math_round (num_mul (getEffectiveDemand (festivalPlan st) item) (Fin 1.2)))
              (inventoryData st)
      in Math_max (Fin 0) (num_sub totalOptimalStock totalCurrentStock))"

definition totalCapacity :: "Store \<Rightarrow> number" where
  "totalCapacity st = reduce_sum weekly_capacity (productionConstraints st)"

text \<open>\<^verbatim>\<open>productionAllocation\<close> after both passes.\<close>

definition productionAllocation :: "Store \<Rightarrow> Allocation list" where
  "productionAllocation st =
     (let (allocs, remainingProduction) =
            proportional_pass (productionNeeded st) (totalCapacity st) (productionNeeded st)
              (productionConstraints st)
      in if num_gt remainingProduction (Fin 0) then fst (redistribute remainingProduction allocs)
         else allocs)"

datatype recommendation = INCREASE | OPTIMIZE

record InventoryOptimization =
  io_sku :: string
  io_warehouse :: string
  currentStock :: number
  optimalInventory :: number
  safetyStock :: number
  reorderPoint :: number
  recommendation :: recommendation

text \<open>The callback of \<^verbatim>\<open>inventoryData.map\<close> in \<^verbatim>\<open>inventoryOptimization\<close>.\<close>

definition inventoryPolicy :: "FestivalPlan option \<Rightarrow> EnhancedInventoryData \<Rightarrow> InventoryOptimization" where
  "inventoryPolicy plan item =
     (let effectiveDemand = getEffectiveDemand plan item in
      \<lparr> io_sku = sku item,
        io_warehouse = warehouse item,
        currentStock = current_stock item,
        optimalInventory = Math_round (num_mul effectiveDemand (Fin 1.2)),
        safetyStock = Math_round (num_mul effectiveDemand (Fin 0.3)),
        reorderPoint = Math_round (num_mul effectiveDemand (Fin 0.8)),
        recommendation =
          (if num_lt (current_stock item) effectiveDemand then INCREASE else OPTIMIZE) \<rparr>)"

definition inventoryOptimization :: "Store \<Rightarrow> InventoryOptimization list" where
  "inventoryOptimization st = map (inventoryPolicy (festivalPlan st)) (inventoryData st)"

subsection \<open>Dates\<close>

text \<open>
  What the component takes from its host: the clock \<^verbatim>\<open>Date.now()\<close>, in milliseconds since
  the epoch, and the rendering of a time value by \<^verbatim>\<open>toLocaleDateString()\<close>, which depends
  on the locale and the time zone of the host.
\<close>

record Host =
  Date_now :: int
  toLocaleDateString :: "int \<Rightarrow> string"

text \<open>
  \<^verbatim>\<open>new Date(v)\<close>: the time value is \<^verbatim>\<open>v\<close> truncated to an integer, and the date is invalid
  (\<open>None\<close>) when \<^verbatim>\<open>v\<close> is not finite or beyond \<open>8.64 \<times> 10\<^sup>1\<^sup>5\<close> in magnitude.
\<close>

fun new_Date :: "number \<Rightarrow> int option" where
  "new_Date (Fin v) =
     (if 8640000000000000 < \<bar>v\<bar> then None
      else Some (if 0 \<le> v then \<lfloor>v\<rfloor> else \<lceil>v\<rceil>))"
| "new_Date NaN = None"
| "new_Date PosInf = None"
| "new_Date NegInf = None"

definition dateString :: "Host \<Rightarrow> int option \<Rightarrow> string" where
  "dateString host d =
     (case d of None \<Rightarrow> ''Invalid Date'' | Some t \<Rightarrow> toLocaleDateString host t)"

record Procurement =
  supplierId :: string
  materialType :: string
  orderQuantity :: number
  totalCost :: number
  deliveryDate :: string

definition procurementPlan :: "Host \<Rightarrow> Store \<Rightarrow> Procurement list" where
  "procurementPlan host st = map (\<lambda>supplier.
     \<lparr> supplierId = supplier_id supplier,
       materialType = material_type supplier,
       orderQuantity = moq supplier,
       totalCost = num_mul (moq supplier) (unit_price supplier),
       deliveryDate = dateString host (new_Date
         (num_add (Fin (of_int (Date_now host)))
            (num_mul (num_mul (num_mul (num_mul (supplier_lead_time_days supplier)
               (Fin 24)) (Fin 60)) (Fin 60)) (Fin 1000)))) \<rparr>) (suppliers st)"

subsection \<open>Costs and metrics\<close>

record CostAnalysis =
  totalProductionCost :: number
  totalInventoryCost :: number
  totalProcurementCost :: number
  totalSupplyChainCost :: number

record PerformanceMetrics =
  serviceLevel :: number
  inventoryTurnover :: number
  capacityUtilization :: number
  costEfficiency :: number

definition productionCost :: "Store \<Rightarrow> number" where
  "productionCost st = reduce_sum (\<lambda>alloc.
     num_mul (allocatedDemand alloc)
       (case find (\<lambda>f. factory_location f = factory alloc) (productionConstraints st) of
          None \<Rightarrow> Fin 0
        | Some f \<Rightarrow> num_or (production_cost_per_unit f) (Fin 0))) (productionAllocation st)"

definition inventoryCost :: "Store \<Rightarrow> number" where
  "inventoryCost st = reduce_sum (\<lambda>item.
     num_mul (num_mul (current_stock item) (unit_cost item)) (holding_cost_rate item))
     (inventoryData st)"

definition procurementCost :: "Store \<Rightarrow> number" where
  "procurementCost st = reduce_sum (\<lambda>supplier. num_mul (moq supplier) (unit_price supplier))
     (suppliers st)"

definition supplyChainCost :: "Store \<Rightarrow> number" where
  "supplyChainCost st = num_add (num_add (productionCost st) (inventoryCost st)) (procurementCost st)"

definition costAnalysis :: "Store \<Rightarrow> CostAnalysis" where
  "costAnalysis st =
     \<lparr> totalProductionCost = toFixed2 (productionCost st),
       totalInventoryCost = toFixed2 (inventoryCost st),
       totalProcurementCost = toFixed2 (procurementCost st),
       totalSupplyChainCost = toFixed2 (supplyChainCost st) \<rparr>"

text \<open>
  \<^verbatim>\<open>actualCapacityUtilization\<close>, the value reported as \<^verbatim>\<open>capacityUtilization\<close>: the
  allocated total over the total capacity, without the test \<^verbatim>\<open>totalCapacity > 0\<close> that
  \<^verbatim>\<open>dynamicCapacityUtilization\<close> a few lines above it has.
\<close>

definition actualCapacityUtilization :: "Store \<Rightarrow> number" where
  "actualCapacityUtilization st =
     (let totalAllocatedProduction = reduce_sum allocatedDemand (productionAllocation st)
      in toFixed2 (num_mul (num_div totalAllocatedProduction (totalCapacity st)) (Fin 100)))"

definition performanceMetrics :: "Store \<Rightarrow> PerformanceMetrics" where
  "performanceMetrics st =
     (let totalDemand = reduce_sum (getEffectiveDemand (festivalPlan st)) (inventoryData st);
          totalFulfilled = reduce_sum (\<lambda>item.
            Math_min (current_stock item) (getEffectiveDemand (festivalPlan st) item))
            (inventoryData st);
          dynamicServiceLevel =
            (if num_gt totalDemand (Fin 0)
             then num_mul (num_div totalFulfilled totalDemand) (Fin 100) else Fin 100);
          totalInventory = reduce_sum current_stock (inventoryData st);
          dynamicInventoryTurnover =
            (if num_gt totalInventory (Fin 0) then num_div totalDemand totalInventory else Fin 0);
          dynamicCostEfficiency =
            (if num_gt (supplyChainCost st) (Fin 0)
             then num_mul (num_div (num_mul totalDemand (Fin 15)) (supplyChainCost st)) (Fin 100)
             else Fin 0)
      in \<lparr> serviceLevel = toFixed2 dynamicServiceLevel,
           inventoryTurnover = toFixed2 dynamicInventoryTurnover,
           capacityUtilization = actualCapacityUtilization st,
           costEfficiency = toFixed2 dynamicCostEfficiency \<rparr>)"

record Optimization =
  opt_productionAllocation :: "Allocation list"
  opt_inventoryOptimization :: "InventoryOptimization list"
  opt_procurementPlan :: "Procurement list"
  opt_costAnalysis :: CostAnalysis
  opt_performanceMetrics :: PerformanceMetrics

text \<open>\<^verbatim>\<open>handleSupplyChainOptimization\<close>: the object handed to \<^verbatim>\<open>setOptimizedData\<close>.\<close>

definition handleSupplyChainOptimization :: "Host \<Rightarrow> Store \<Rightarrow> Optimization" where
  "handleSupplyChainOptimization host st =
     \<lparr> opt_productionAllocation = productionAllocation st,
       opt_inventoryOptimization = inventoryOptimization st,
       opt_procurementPlan = procurementPlan host st,
       opt_costAnalysis = costAnalysis st,
       opt_performanceMetrics = performanceMetrics st \<rparr>"

section \<open>Strings\<close>

text \<open>
  A JavaScript string is modelled as a list of characters. The models of the string
  functions of the language are exact on ASCII text; the white space beyond ASCII that
  \<^verbatim>\<open>trim\<close>, \<^verbatim>\<open>parseInt\<close> and \<^verbatim>\<open>parseFloat\<close> also skip, and the letters beyond ASCII that
  \<^verbatim>\<open>toLowerCase\<close> also folds, are left as they are.
\<close>

text \<open>The decimal digits of a natural number, as a template literal prints it.\<close>

definition digit_char :: "nat \<Rightarrow> char" where
  "digit_char n = ''0123456789'' ! (n mod 10)"

function string_of_nat :: "nat \<Rightarrow> string" where
  "string_of_nat n =
     (if n < 10 then [digit_char n] else string_of_nat (n div 10) @ [digit_char n])"
  by pat_completeness auto
termination
  by (relation "measure id") auto

declare string_of_nat.simps [simp del]

text \<open>\<^verbatim>\<open>s.split(c)\<close> for a separator of one character: never an empty array.\<close>

fun split_on :: "char \<Rightarrow> string \<Rightarrow> string list" where
  "split_on c [] = [[]]"
| "split_on c (x # xs) =
     (if x = c then [] # split_on c xs
      else (case split_on c xs of
              [] \<Rightarrow> [[x]]
            | w # ws \<Rightarrow> (x # w) # ws))"

text \<open>\<^verbatim>\<open>xs[k]\<close>: \<^verbatim>\<open>undefined\<close> (\<open>None\<close>) beyond the end of the array.\<close>

definition index :: "'a list \<Rightarrow> nat \<Rightarrow> 'a option" where
  "index xs k = (if k < length xs then Some (xs ! k) else None)"

definition is_whitespace :: "char \<Rightarrow> bool" where
  "is_whitespace c = (c \<in> set [CHR 0x09, CHR 0x0A, CHR 0x0B, CHR 0x0C, CHR 0x0D, CHR 0x20])"

text \<open>\<^verbatim>\<open>s.trim()\<close> and \<^verbatim>\<open>s.toLowerCase()\<close>\<close>

definition trim :: "string \<Rightarrow> string" where
  "trim s = rev (dropWhile is_whitespace (rev (dropWhile is_whitespace s)))"

definition toLowerCase :: "string \<Rightarrow> string" where
  "toLowerCase s =
     map (\<lambda>c. case map_of (zip ''ABCDEFGHIJKLMNOPQRSTUVWXYZ'' ''abcdefghijklmnopqrstuvwxyz'') c of
                 None \<Rightarrow> c
               | Some l \<Rightarrow> l) s"

text \<open>The value of a digit in radix 10 or 16.\<close>

definition digit_in :: "nat \<Rightarrow> char \<Rightarrow> nat option" where
  "digit_in radix c =
     (if radix = 16
      then map_of (zip ''0123456789abcdefABCDEF''
             [0, 1, 2, 3, 4, 5, 6, 7, 8, 9, 10, 11, 12, 13, 14, 15, 10, 11, 12, 13, 14, 15]) c
      else map_of (zip ''0123456789'' [0, 1, 2, 3, 4, 5, 6, 7, 8, 9]) c)"

definition is_digit :: "nat \<Rightarrow> char \<Rightarrow> bool" where
  "is_digit radix c = (digit_in radix c \<noteq> None)"

definition digits_value :: "nat \<Rightarrow> string \<Rightarrow> nat" where
  "digits_value radix ds =
     foldl (\<lambda>acc c. acc * radix + (case digit_in radix c of None \<Rightarrow> 0 | Some d \<Rightarrow> d)) 0 ds"

text \<open>An optional sign in front of a numeral: whether it is \<^verbatim>\<open>-\<close>, and the rest.\<close>

definition sign_prefix :: "string \<Rightarrow> bool \<times> string" where
  "sign_prefix s =
     (case s of
        [] \<Rightarrow> (False, s)
      | c # r \<Rightarrow> if c = CHR ''-'' then (True, r) else if c = CHR ''+'' then (False, r) else (False, s))"

text \<open>
  \<^verbatim>\<open>parseInt(s)\<close> without a radix: leading white space and a sign are skipped, \<^verbatim>\<open>0x\<close> or
  \<^verbatim>\<open>0X\<close> selects radix 16, and the longest prefix of digits is the value; \<^verbatim>\<open>NaN\<close> when
  there is no digit.
\<close>

definition parseInt :: "string \<Rightarrow> number" where
  "parseInt s =
     (let (neg, s2) = sign_prefix (dropWhile is_whitespace s);
          hex = (take 2 s2 = ''0x'' \<or> take 2 s2 = ''0X'');
          radix = (if hex then 16 else 10);
          ds = takeWhile (is_digit radix) (if hex then drop 2 s2 else s2)
      in if ds = [] then NaN
         else Fin (of_int ((if neg then - 1 else 1) * int (digits_value radix ds))))"

text \<open>The exponent part of a decimal literal, zero when there is none.\<close>

definition exponent_part :: "string \<Rightarrow> int" where
  "exponent_part s =
     (case s of
        [] \<Rightarrow> 0
      | c # r \<Rightarrow>
          if c = CHR ''e'' \<or> c = CHR ''E'' then
            (let (neg, r') = sign_prefix r; ds = takeWhile (is_digit 10) r'
             in if ds = [] then 0
                else if neg then - int (digits_value 10 ds) else int (digits_value 10 ds))
          else 0)"

text \<open>
  \<^verbatim>\<open>parseFloat(s)\<close>: leading white space is skipped, and the longest prefix that is a
  decimal literal (a sign, then \<^verbatim>\<open>Infinity\<close> or digits with an optional fraction and an
  optional exponent) is the value; \<^verbatim>\<open>NaN\<close> when there is none.
\<close>

definition parseFloat :: "string \<Rightarrow> number" where
  "parseFloat s =
     (let (neg, s2) = sign_prefix (dropWhile is_whitespace s) in
      if take 8 s2 = ''Infinity'' then (if neg then NegInf else PosInf)
      else
        (let ip = takeWhile (is_digit 10) s2;
             r1 = dropWhile (is_digit 10) s2;
             dot = (case r1 of [] \<Rightarrow> False | c # r \<Rightarrow> c = CHR ''.'');
             fp = (if dot then takeWhile (is_digit 10) (tl r1) else []);
             r2 = (if dot then dropWhile (is_digit 10) (tl r1) else r1)
         in if ip = [] \<and> fp = [] then NaN
            else Fin ((if neg then - 1 else 1)
                   * (of_nat (digits_value 10 ip) + of_nat (digits_value 10 fp) / 10 ^ length fp)
                   * 10 powi exponent_part r2)))"

text \<open>Both functions read \<^verbatim>\<open>undefined\<close> as the string \<^verbatim>\<open>"undefined"\<close>, which is \<^verbatim>\<open>NaN\<close>.\<close>

definition parseInt_field :: "string option \<Rightarrow> number" where
  "parseInt_field v = (case v of None \<Rightarrow> NaN | Some s \<Rightarrow> parseInt s)"

definition parseFloat_field :: "string option \<Rightarrow> number" where
  "parseFloat_field v = (case v of None \<Rightarrow> NaN | Some s \<Rightarrow> parseFloat s)"

text \<open>\<^verbatim>\<open>v || d\<close> for a string that may be \<^verbatim>\<open>undefined\<close>: the empty string is falsy.\<close>

definition str_or :: "string option \<Rightarrow> string \<Rightarrow> string" where
  "str_or v d = (case v of None \<Rightarrow> d | Some s \<Rightarrow> if s = [] then d else s)"

section \<open>The CSV parser\<close>

text \<open>
  \<^verbatim>\<open>Boolean(values[12] && values[12].trim().toLowerCase() === "true")\<close>
\<close>

definition isSensitive :: "string list \<Rightarrow> bool" where
  "isSensitive values =
     (case index values 12 of
        None \<Rightarrow> False
      | Some v \<Rightarrow> v \<noteq> [] \<and> toLowerCase (trim v) = ''true'')"

text \<open>The record that the body of the loop pushes for line \<open>i\<close>.\<close>

definition parse_row :: "nat \<Rightarrow> string list \<Rightarrow> EnhancedInventoryData" where
  "parse_row i values =
     \<lparr> sku = str_or (index values 0) (''SKU-'' @ string_of_nat i),
       warehouse = str_or (index values 1) ''Delhi'',
       product_category = str_or (index values 2) ''Snacks'',
       current_stock = num_or (parseInt_field (index values 3)) (Fin 0),
       forecast_demand = num_or (parseInt_field (index values 4)) (Fin 0),
       actual_demand = num_or (parseInt_field (index values 5)) (Fin 0),
       production_capacity = num_or (parseInt_field (index values 6)) (Fin 0),
       unit_cost = num_or (parseFloat_field (index values 7)) (Fin 10.0),
       holding_cost_rate = num_or (parseFloat_field (index values 8)) (Fin 0.25),
       stockout_penalty = num_or (parseFloat_field (index values 9)) (Fin 50.0),
       lead_time_days = num_or (parseInt_field (index values 10)) (Fin 7),
       shelf_life_days = num_or (parseInt_field (index values 11)) (Fin 90),
       is_festival_sensitive = isSensitive values \<rparr>"

text \<open>
  The body of the loop for line \<open>i\<close>: the line is split at the commas, and a record is
  pushed when the line has at least as many fields as the header.
\<close>

definition parse_line :: "string list \<Rightarrow> nat \<Rightarrow> string \<Rightarrow> EnhancedInventoryData list" where
  "parse_line headers i line =
     (let values = split_on (CHR '','') line
      in if length headers \<le> length values then [parse_row i values] else [])"

text \<open>\<^verbatim>\<open>for (let i = 1; i < lines.length && i < 10; i++)\<close>\<close>

function parse_loop ::
  "string list \<Rightarrow> string list \<Rightarrow> nat \<Rightarrow> EnhancedInventoryData list \<Rightarrow> EnhancedInventoryData list" where
  "parse_loop lines headers i parsedData =
     (if i < length lines \<and> i < 10
      then parse_loop lines headers (i + 1) (parsedData @ parse_line headers i (lines ! i))
      else parsedData)"
  by pat_completeness auto
termination
  by (relation "measure (\<lambda>(lines, headers, i, parsedData). 10 - i)") auto

declare parse_loop.simps [simp del]

text \<open>The callback \<^verbatim>\<open>reader.onload\<close> up to \<^verbatim>\<open>setInventoryData\<close>.\<close>

definition parsedData :: "string \<Rightarrow> EnhancedInventoryData list" where
  "parsedData text =
     (let lines = split_on (CHR 0x0A) text;
          headers = split_on (CHR '','') (lines ! 0)
      in parse_loop lines headers 1 [])"

text \<open>\<^verbatim>\<open>parseCSVFile\<close>: \<^verbatim>\<open>setInventoryData(parsedData)\<close> replaces the collection.\<close>

definition parseCSVFile :: "string \<Rightarrow> Store \<Rightarrow> Store" where
  "parseCSVFile text st = st\<lparr>inventoryData := parsedData text\<rparr>"

section \<open>The analysis reporter\<close>

record WarehousePerformance =
  wp_warehouse :: string
  stockCoverage :: number
  wp_serviceLevel :: number

text \<open>The entry of \<^verbatim>\<open>warehousePerformance\<close> for one warehouse.\<close>

definition warehouseEntry :: "EnhancedInventoryData list \<Rightarrow> string \<Rightarrow> WarehousePerformance" where
  "warehouseEntry inventory w =
     (let warehouseItems = filter (\<lambda>item. warehouse item = w) inventory;
          totalStock = reduce_sum current_stock warehouseItems;
          totalDemand = reduce_sum actual_demand warehouseItems
      in \<lparr> wp_warehouse = w,
           stockCoverage =
             (if num_gt totalDemand (Fin 0)
              then num_div (Math_round (num_mul (num_div totalStock totalDemand) (Fin 100))) (Fin 100)
              else Fin 0),
           wp_serviceLevel =
             Math_min (Fin 100)
               (if num_gt totalDemand (Fin 0)
                then Math_round
                       (num_mul (num_div (Math_min totalStock totalDemand) totalDemand) (Fin 100))
                else Fin 100) \<rparr>)"

definition warehousePerformance :: "Store \<Rightarrow> WarehousePerformance list" where
  "warehousePerformance st =
     map (warehouseEntry (inventoryData st)) [''Delhi'', ''Mumbai'', ''Kolkata'']"

section \<open>The initial state\<close>

text \<open>The collections the component starts with.\<close>

definition PC001 :: EnhancedInventoryData where
  "PC001 =
     \<lparr> sku = ''PC001'', warehouse = ''Delhi'', product_category = ''Snacks'',
       current_stock = Fin 10, forecast_demand = Fin 40, actual_demand = Fin 60,
       production_capacity = Fin 30, unit_cost = Fin 15.5, holding_cost_rate = Fin 0.25,
       stockout_penalty = Fin 50, lead_time_days = Fin 7, shelf_life_days = Fin 90,
       is_festival_sensitive = True \<rparr>"

definition NC001 :: EnhancedInventoryData where
  "NC001 =
     \<lparr> sku = ''NC001'', warehouse = ''Mumbai'', product_category = ''Snacks'',
       current_stock = Fin 25, forecast_demand = Fin 25, actual_demand = Fin 20,
       production_capacity = Fin 25, unit_cost = Fin 18.2, holding_cost_rate = Fin 0.25,
       stockout_penalty = Fin 45, lead_time_days = Fin 5, shelf_life_days = Fin 120,
       is_festival_sensitive = False \<rparr>"

definition factory_Delhi :: ProductionConstraint where
  "factory_Delhi =
     \<lparr> factory_location = ''Delhi'', weekly_capacity = Fin 100, efficiency_rate = Fin 0.85,
       production_cost_per_unit = Fin 12.3 \<rparr>"

definition factory_Pune :: ProductionConstraint where
  "factory_Pune =
     \<lparr> factory_location = ''Pune'', weekly_capacity = Fin 80, efficiency_rate = Fin 0.9,
       production_cost_per_unit = Fin 11.9 \<rparr>"

definition SUP001 :: Supplier where
  "SUP001 =
     \<lparr> supplier_id = ''SUP001'', material_type = ''flour'', reliability_score = Fin 0.92,
       supplier_lead_time_days = Fin 5, moq = Fin 500, unit_price = Fin 2.5,
       quality_rating = Fin 8.5 \<rparr>"

definition SUP002 :: Supplier where
  "SUP002 =
     \<lparr> supplier_id = ''SUP002'', material_type = ''oil'', reliability_score = Fin 0.78,
       supplier_lead_time_days = Fin 8, moq = Fin 200, unit_price = Fin 5.8,
       quality_rating = Fin 7.2 \<rparr>"

definition initial_store :: Store where
  "initial_store =
     \<lparr> inventoryData = [PC001, NC001],
       productionConstraints = [factory_Delhi, factory_Pune],
       suppliers = [SUP001, SUP002],
       festivalPlan = None,
       festivalMultiplier = Fin 1.45 \<rparr>"

text \<open>The plan that \<^verbatim>\<open>handleFestivalPlanning\<close> computes in the initial state.\<close>

definition sample_plan :: FestivalPlan where
  "sample_plan = handleFestivalPlanning initial_store"

text \<open>
  The first SKU and the first factory alone, before and after festival planning with the
  multiplier 1.45.
\<close>

definition single_store :: Store where
  "single_store =
     initial_store\<lparr>inventoryData := [PC001], productionConstraints := [factory_Delhi]\<rparr>"

definition single_store_planned :: Store where
  "single_store_planned = single_store\<lparr>festivalPlan := Some (handleFestivalPlanning single_store)\<rparr>"

text \<open>
  The initial state with its second factory idle, with both factories idle, and with one
  idle factory only.
\<close>

definition idle_second_store :: Store where
  "idle_second_store =
     initial_store\<lparr>productionConstraints := [factory_Delhi, factory_Pune\<lparr>weekly_capacity := Fin 0\<rparr>]\<rparr>"

definition idle_both_store :: Store where
  "idle_both_store =
     initial_store\<lparr>productionConstraints :=
       [factory_Delhi\<lparr>weekly_capacity := Fin 0\<rparr>, factory_Pune\<lparr>weekly_capacity := Fin 0\<rparr>]\<rparr>"

definition idle_only_store :: Store where
  "idle_only_store =
     initial_store\<lparr>productionConstraints := [factory_Delhi\<lparr>weekly_capacity := Fin 0\<rparr>]\<rparr>"

text \<open>
  Uploaded files for the evaluations below: a file whose only data line has zeros in its
  cost, lead-time and shelf-life fields, and two files of eleven data lines under a header
  of two fields that differ in their last two lines only.
\<close>

definition csv_header :: string where
  "csv_header = ''sku,warehouse,product_category,current_stock,forecast_demand,actual_demand,production_capacity,unit_cost,holding_cost_rate,stockout_penalty,lead_time_days,shelf_life_days,is_festival_sensitive''"

definition csv_zero_line :: string where
  "csv_zero_line = ''SKU9,Pune,Oil,5,6,7,8,0,0,0,0,0, TRUE''"

definition csv_zero :: string where
  "csv_zero = csv_header @ [CHR 0x0A] @ csv_zero_line"

definition csv_nine :: string where
  "csv_nine = concat (map (\<lambda>l. l @ [CHR 0x0A])
     [''sku,warehouse'', ''S1,Delhi'', ''S2,Mumbai'', ''S3'', ''S4,Kolkata'', '',Pune'',
      ''S6,Delhi'', ''S7,Delhi'', ''S8,Mumbai'', ''S9,Mumbai''])"

definition csv_eleven :: string where
  "csv_eleven = csv_nine @ ''S10,Delhi'' @ [CHR 0x0A] @ ''S11,Delhi''"

definition csv_eleven' :: string where
  "csv_eleven' = csv_nine @ ''T10,Kolkata'' @ [CHR 0x0A] @ ''T11''"

section \<open>A host\<close>

text \<open>
  A concrete host for the evaluations below: the clock at a given instant, and
  \<^verbatim>\<open>toLocaleDateString()\<close> as the locale \<^verbatim>\<open>en-US\<close> renders it in the time zone UTC, month,
  day and year of the proleptic Gregorian calendar separated by \<^verbatim>\<open>/\<close>.
\<close>

definition string_of_int :: "int \<Rightarrow> string" where
  "string_of_int i = (if i < 0 then CHR ''-'' # string_of_nat (nat (- i)) else string_of_nat (nat i))"

text \<open>The civil date (year, month, day) of a day counted from 1970-01-01.\<close>

definition civil_from_days :: "int \<Rightarrow> int \<times> int \<times> int" where
  "civil_from_days days =
     (let z = days + 719468;
          era = z div 146097;
          doe = z - era * 146097;
          yoe = (doe - doe div 1460 + doe div 36524 - doe div 146096) div 365;
          doy = doe - (365 * yoe + yoe div 4 - yoe div 100);
          mp = (5 * doy + 2) div 153;
          d = doy - (153 * mp + 2) div 5 + 1;
          m = (if mp < 10 then mp + 3 else mp - 9);
          y = yoe + era * 400 + (if m \<le> 2 then 1 else 0)
      in (y, m, d))"

definition en_US_UTC :: "int \<Rightarrow> string" where
  "en_US_UTC t =
     (case civil_from_days (t div 86400000) of
        (y, m, d) \<Rightarrow> string_of_int m @ ''/'' @ string_of_int d @ ''/'' @ string_of_int y)"

definition host_at :: "int \<Rightarrow> Host" where
  "host_at t = \<lparr> Date_now = t, toLocaleDateString = en_US_UTC \<rparr>"

section \<open>Notions for the proofs\<close>

text \<open>The value of a finite number (zero for the others).\<close>

fun the_fin :: "number \<Rightarrow> rat" where
  "the_fin (Fin x) = x"
| "the_fin NaN = 0"
| "the_fin PosInf = 0"
| "the_fin NegInf = 0"

text \<open>A factory with a finite capacity that is not negative.\<close>

definition valid_capacity :: "ProductionConstraint \<Rightarrow> bool" where
  "valid_capacity f = (case weekly_capacity f of Fin c \<Rightarrow> 0 \<le> c | _ \<Rightarrow> False)"

text \<open>An allocation between zero and the capacity, both finite.\<close>

definition within_capacity :: "Allocation \<Rightarrow> bool" where
  "within_capacity a =
     (case (allocatedDemand a, capacity a) of
        (Fin x, Fin c) \<Rightarrow> 0 \<le> x \<and> x \<le> c
      | _ \<Rightarrow> False)"

text \<open>An allocation that uses the whole capacity.\<close>

definition at_capacity :: "Allocation \<Rightarrow> bool" where
  "at_capacity a = (allocatedDemand a = capacity a)"

text \<open>The entry reports the utilization of what it allocates.\<close>

definition utilization_consistent :: "Allocation \<Rightarrow> bool" where
  "utilization_consistent a = (utilizationRate a = utilization (allocatedDemand a) (capacity a))"

definition allocated_total :: "Allocation list \<Rightarrow> rat" where
  "allocated_total as = sum_list (map (\<lambda>a. the_fin (allocatedDemand a)) as)"

definition capacity_total :: "ProductionConstraint list \<Rightarrow> rat" where
  "capacity_total fs = sum_list (map (\<lambda>f. the_fin (weekly_capacity f)) fs)"

section \<open>Evaluation and lists\<close>

lemma floor_rat_numeral_div [simp]:
  "\<lfloor>numeral a / numeral b :: rat\<rfloor> = numeral a div numeral b"
  by (metis floor_divide_of_int_eq of_int_numeral)

lemma floor_rat_one_div [simp]:
  "\<lfloor>1 / numeral b :: rat\<rfloor> = 1 div numeral b"
  by (metis floor_divide_of_int_eq of_int_numeral of_int_1)

lemma floor_rat_neg_numeral_div [simp]:
  "\<lfloor>- (numeral a / numeral b) :: rat\<rfloor> = - numeral a div numeral b"
  by (metis floor_divide_of_int_eq of_int_numeral of_int_minus minus_divide_left)

subsection \<open>Doubles\<close>

text \<open>The exponent that \<open>binary_exponent\<close> computes is the binary exponent of its argument.\<close>

lemma bit_length_pos: "0 < n \<Longrightarrow> bit_length n = 1 + bit_length (n div 2)"
  by (subst bit_length.simps) simp

lemma bit_length_nonpos: "n \<le> 0 \<Longrightarrow> bit_length n = 0"
  by (subst bit_length.simps) simp

lemma bit_length_bounds:
  "0 < n \<Longrightarrow> 1 \<le> bit_length n \<and> 2 ^ nat (bit_length n - 1) \<le> n \<and> n < 2 ^ nat (bit_length n)"
proof (induction n rule: bit_length.induct)
  case (1 n)
  show ?case
  proof (cases "n div 2 \<le> 0")
    case True
    then have "n = 1" using "1.prems" by linarith
    then show ?thesis
      by (simp add: bit_length_pos bit_length_nonpos)
  next
    case False
    let ?m = "n div 2"
    let ?b = "bit_length ?m"
    have ih: "1 \<le> ?b" "2 ^ nat (?b - 1) \<le> ?m" "?m < 2 ^ nat ?b"
      using "1.IH" "1.prems" False by auto
    have b: "bit_length n = 1 + ?b" using "1.prems" by (rule bit_length_pos)
    have p: "(2::int) ^ nat ?b = 2 * 2 ^ nat (?b - 1)"
      using ih(1) by (metis Suc_nat_eq_nat_zadd1 add.commute diff_add_cancel diff_ge_0_iff_ge power_Suc)
    have lo: "2 ^ nat ?b \<le> n" using ih(2) p by linarith
    have "?m + 1 \<le> 2 ^ nat ?b" using ih(3) by linarith
    then have hi: "n < 2 * 2 ^ nat ?b" by linarith
    have q: "(2::int) ^ nat (1 + ?b) = 2 * 2 ^ nat ?b"
      using ih(1) by (simp add: nat_add_distrib)
    show ?thesis
      using ih(1) lo hi by (simp add: b q)
  qed
qed

lemma bit_length_bounds_rat:
  assumes "0 < n"
  shows "2 powi (bit_length n - 1) \<le> (of_int n :: rat)" and "(of_int n :: rat) < 2 powi (bit_length n)"
proof -
  have b: "1 \<le> bit_length n" "2 ^ nat (bit_length n - 1) \<le> n" "n < 2 ^ nat (bit_length n)"
    using bit_length_bounds [OF assms] by auto
  have "(of_int (2 ^ nat (bit_length n - 1)) :: rat) \<le> of_int n"
    using b(2) by (simp only: of_int_le_iff)
  then show "2 powi (bit_length n - 1) \<le> (of_int n :: rat)"
    using b(1) by (simp add: power_int_def)
  have "(of_int n :: rat) < of_int (2 ^ nat (bit_length n))"
    using b(3) by (simp only: of_int_less_iff)
  then show "(of_int n :: rat) < 2 powi (bit_length n)"
    using b(1) by (simp add: power_int_def)
qed

lemma binary_exponent_bounds:
  assumes "0 < a"
  shows "2 powi (binary_exponent a) \<le> a" and "a < 2 powi (binary_exponent a + 1)"
proof -
  obtain p q where pq: "quotient_of a = (p, q)" by (cases "quotient_of a")
  have q: "0 < q" using pq by (rule quotient_of_denom_pos)
  have a: "a = of_int p / of_int q" using pq by (rule quotient_of_div)
  have p: "0 < p" using assms q a by (simp add: zero_less_divide_iff)
  let ?e = "bit_length p - bit_length q"
  note bp = bit_length_bounds_rat [OF p]
  note bq = bit_length_bounds_rat [OF q]
  have qr: "(0::rat) < of_int q" using q by simp
  have up: "a < 2 powi (?e + 1)"
  proof -
    have "of_int p < (2::rat) powi (bit_length p)" by (rule bp(2))
    also have "\<dots> = 2 powi (?e + 1) * 2 powi (bit_length q - 1)"
      by (simp flip: power_int_add)
    also have "\<dots> \<le> 2 powi (?e + 1) * of_int q"
      using bq(1) by (intro mult_left_mono) auto
    finally show ?thesis using qr by (simp add: a pos_divide_less_eq)
  qed
  have lo: "2 powi (?e - 1) \<le> a"
  proof -
    have "(2::rat) powi (?e - 1) * of_int q \<le> 2 powi (?e - 1) * 2 powi (bit_length q)"
      using bq(2) by (intro mult_left_mono) auto
    also have "\<dots> = 2 powi (bit_length p - 1)"
      by (simp flip: power_int_add)
    also have "\<dots> \<le> of_int p" by (rule bp(1))
    finally show ?thesis using qr by (simp add: a pos_le_divide_eq)
  qed
  show "2 powi (binary_exponent a) \<le> a"
    using lo by (simp add: binary_exponent_def pq Let_def)
  show "a < 2 powi (binary_exponent a + 1)"
    using up by (auto simp add: binary_exponent_def pq Let_def not_le)
qed

lemma binary_exponent_unique:
  assumes "2 powi e \<le> a" and "a < 2 powi (e + 1)"
  shows "binary_exponent a = e"
proof -
  have pos: "0 < a"
    using assms(1) by (rule less_le_trans [rotated]) simp
  note b = binary_exponent_bounds [OF pos]
  have "(2::rat) powi e < 2 powi (binary_exponent a + 1)"
    using assms(1) b(2) by (rule le_less_trans)
  then have 1: "e < binary_exponent a + 1"
    by (metis linorder_not_less one_le_numeral power_int_increasing)
  have "(2::rat) powi (binary_exponent a) < 2 powi (e + 1)"
    using b(1) assms(2) by (rule le_less_trans)
  then have 2: "binary_exponent a < e + 1"
    by (metis linorder_not_less one_le_numeral power_int_increasing)
  show ?thesis using 1 2 by simp
qed

lemma to_double_eval:
  assumes "2 powi e \<le> \<bar>x\<bar>" and "\<bar>x\<bar> < 2 powi (e + 1)" and "- 1022 \<le> e"
  shows "to_double x =
    (let y = of_int (round_half_even (\<bar>x\<bar> / 2 powi (e - 52))) * 2 powi (e - 52)
     in if 2 powi 1024 \<le> y then (if 0 < x then PosInf else NegInf) else Fin (sgn x * y))"
proof -
  have e: "binary_exponent \<bar>x\<bar> = e"
    using assms(1,2) by (rule binary_exponent_unique)
  have "0 < \<bar>x\<bar>"
    using assms(1) by (rule less_le_trans [rotated]) simp
  then have "x \<noteq> 0" by simp
  then show ?thesis
    using assms(3) by (simp add: to_double_def e Let_def max_def)
qed

lemma to_double_zero [simp]: "to_double 0 = Fin 0"
  by (simp add: to_double_def)

text \<open>The rule \<open>to_double_eval\<close> for the exponents from \<open>-4\<close> to \<open>7\<close>.\<close>

lemmas to_double_small =
  to_double_eval [where e = "- 4"] to_double_eval [where e = "- 3"]
  to_double_eval [where e = "- 2"] to_double_eval [where e = "- 1"]
  to_double_eval [where e = "0"] to_double_eval [where e = "1"] to_double_eval [where e = "2"]
  to_double_eval [where e = "3"] to_double_eval [where e = "4"] to_double_eval [where e = "5"]
  to_double_eval [where e = "6"] to_double_eval [where e = "7"]

lemmas double_eval = double_mul_def double_sub_def num_sub_def round_half_even_def Let_def
  to_double_small

text \<open>Products that a double cannot hold: the code rounds them before \<^verbatim>\<open>Math.round\<close>.\<close>

lemma double_literals:
  "to_double 1.15 = Fin (2589569785738035 / 2251799813685248)"
  "to_double 0.1 = Fin (3602879701896397 / 36028797018963968)"
  "to_double 40 = Fin 40"
  by (simp_all add: double_eval)

lemma double_products:
  "Math_round (double_mul (Fin 50) (Fin 1.15)) = Fin 57"
  "Math_round (double_mul (Fin 25) (Fin 2.3)) = Fin 57"
  "Math_round (double_mul (Fin 15) (Fin 0.3)) = Fin 5"
  "Math_round (double_mul (Fin 40) (Fin 1.45)) = Fin 58"
  by (simp_all add: double_eval)

lemma num_or_defaulted: "num_or v d = (if v = NaN \<or> v = Fin 0 then d else v)"
  by (cases v) (auto simp: num_or_def)

subsection \<open>Lists and the initial plan\<close>

lemma find_first_match:
  assumes "xs = pre @ e # post" and "\<forall>x \<in> set pre. \<not> P x" and "P e"
  shows "find P xs = Some e"
  using assms by (induction pre arbitrary: xs) auto

lemma find_no_match: "(\<forall>x \<in> set xs. \<not> P x) \<Longrightarrow> find P xs = None"
  by (simp add: find_None_iff)

lemmas sample_defs = initial_store_def PC001_def NC001_def factory_Delhi_def factory_Pune_def
  SUP001_def SUP002_def

lemma sample_plan_demandForecast:
  "demandForecast sample_plan =
     [\<lparr>fd_sku = ''PC001'', baseDemand = Fin 40, festivalDemand = Fin 58, surgeFactor = Fin 1.45\<rparr>,
      \<lparr>fd_sku = ''NC001'', baseDemand = Fin 25, festivalDemand = Fin 25, surgeFactor = Fin 1\<rparr>]"
  by (simp add: sample_plan_def handleFestivalPlanning_def initial_store_def PC001_def NC001_def
      currentMultiplier_def num_or_def surge_def double_eval)

section \<open>Demand resolution and the inventory policy\<close>

text \<open>
  Claim C1. The effective demand of a SKU is the festival demand of the plan's (first) entry
  for its \<^verbatim>\<open>sku\<close> when a plan exists and has such an entry, and the forecast demand of the
  SKU otherwise, that is when the plan has no entry for it or there is no plan. The
  inventory policy under a plan is the policy that results without a plan once the
  effective demand has been put in the place of the forecast demand, and without a plan
  the policy is the one of the forecast demand.
\<close>

theorem effective_demand_precedence:
  "(\<forall>pre e post.
      demandForecast p = pre @ e # post \<and> (\<forall>x \<in> set pre. fd_sku x \<noteq> sku item) \<and> fd_sku e = sku item
      \<longrightarrow> getEffectiveDemand (Some p) item = festivalDemand e)
   \<and> ((\<forall>x \<in> set (demandForecast p). fd_sku x \<noteq> sku item)
      \<longrightarrow> getEffectiveDemand (Some p) item = forecast_demand item)
   \<and> getEffectiveDemand None item = forecast_demand item
   \<and> inventoryPolicy (Some p) item
       = inventoryPolicy None (item\<lparr>forecast_demand := getEffectiveDemand (Some p) item\<rparr>)
   \<and> opt_inventoryOptimization (handleSupplyChainOptimization host (st\<lparr>festivalPlan := Some p\<rparr>))
       = map (\<lambda>item. inventoryPolicy None
                (item\<lparr>forecast_demand := getEffectiveDemand (Some p) item\<rparr>)) (inventoryData st)
   \<and> opt_inventoryOptimization (handleSupplyChainOptimization host (st\<lparr>festivalPlan := None\<rparr>))
       = map (inventoryPolicy None) (inventoryData st)
   \<and> optimalInventory (inventoryPolicy None item) = Math_round (num_mul (forecast_demand item) (Fin 1.2))
   \<and> safetyStock (inventoryPolicy None item) = Math_round (num_mul (forecast_demand item) (Fin 0.3))
   \<and> reorderPoint (inventoryPolicy None item) = Math_round (num_mul (forecast_demand item) (Fin 0.8))
   \<and> recommendation (inventoryPolicy None item)
       = (if num_lt (current_stock item) (forecast_demand item) then INCREASE else OPTIMIZE)"
proof -
  have a: "getEffectiveDemand (Some p) item = festivalDemand e"
    if "demandForecast p = pre @ e # post" "\<forall>x \<in> set pre. fd_sku x \<noteq> sku item" "fd_sku e = sku item"
    for pre e post
    using find_first_match [of "demandForecast p" pre e post "\<lambda>fd. fd_sku fd = sku item"] that
    by (simp add: getEffectiveDemand_def)
  have b: "getEffectiveDemand (Some p) item = forecast_demand item"
    if "\<forall>x \<in> set (demandForecast p). fd_sku x \<noteq> sku item"
    using find_no_match [of "demandForecast p" "\<lambda>fd. fd_sku fd = sku item"] that
    by (simp add: getEffectiveDemand_def)
  have c: "getEffectiveDemand None item = forecast_demand item" for item
    by (simp add: getEffectiveDemand_def)
  have d: "inventoryPolicy (Some p) item
       = inventoryPolicy None (item\<lparr>forecast_demand := getEffectiveDemand (Some p) item\<rparr>)" for item
    by (simp add: inventoryPolicy_def c Let_def)
  have f: "opt_inventoryOptimization (handleSupplyChainOptimization host (st\<lparr>festivalPlan := Some p\<rparr>))
       = map (\<lambda>item. inventoryPolicy None
                (item\<lparr>forecast_demand := getEffectiveDemand (Some p) item\<rparr>)) (inventoryData st)"
    using d by (simp add: handleSupplyChainOptimization_def inventoryOptimization_def)
  have g: "opt_inventoryOptimization (handleSupplyChainOptimization host (st\<lparr>festivalPlan := None\<rparr>))
       = map (inventoryPolicy None) (inventoryData st)"
    by (simp add: handleSupplyChainOptimization_def inventoryOptimization_def)
  have e: "optimalInventory (inventoryPolicy None item) = Math_round (num_mul (forecast_demand item) (Fin 1.2))"
    "safetyStock (inventoryPolicy None item) = Math_round (num_mul (forecast_demand item) (Fin 0.3))"
    "reorderPoint (inventoryPolicy None item) = Math_round (num_mul (forecast_demand item) (Fin 0.8))"
    "recommendation (inventoryPolicy None item)
       = (if num_lt (current_stock item) (forecast_demand item) then INCREASE else OPTIMIZE)"
    by (simp_all add: inventoryPolicy_def c Let_def)
  have a': "\<forall>pre e post.
      demandForecast p = pre @ e # post \<and> (\<forall>x \<in> set pre. fd_sku x \<noteq> sku item) \<and> fd_sku e = sku item
      \<longrightarrow> getEffectiveDemand (Some p) item = festivalDemand e"
    using a by blast
  have b': "(\<forall>x \<in> set (demandForecast p). fd_sku x \<noteq> sku item)
      \<longrightarrow> getEffectiveDemand (Some p) item = forecast_demand item"
    using b by blast
  show ?thesis
    by (intro conjI) (rule a' b' c d f g e)+
qed

theorem effective_demand_precedence_witness:
  "getEffectiveDemand (Some sample_plan) PC001 = Fin 58
   \<and> getEffectiveDemand (Some (sample_plan\<lparr>demandForecast := []\<rparr>)) PC001 = Fin 40
   \<and> getEffectiveDemand None PC001 = Fin 40
   \<and> optimalInventory (inventoryPolicy (Some sample_plan) PC001) = Fin 70
   \<and> optimalInventory (inventoryPolicy None PC001) = Fin 48"
proof -
  let ?e = "\<lparr>fd_sku = ''PC001'', baseDemand = Fin 40, festivalDemand = Fin 58, surgeFactor = Fin 1.45\<rparr>"
  let ?post = "[\<lparr>fd_sku = ''NC001'', baseDemand = Fin 25, festivalDemand = Fin 25, surgeFactor = Fin 1\<rparr>]"
  note t1 = effective_demand_precedence [of sample_plan PC001]
  note t2 = effective_demand_precedence [of "sample_plan\<lparr>demandForecast := []\<rparr>" PC001]
  note t3 = effective_demand_precedence [of sample_plan "PC001\<lparr>forecast_demand := Fin 58\<rparr>"]
  have "demandForecast sample_plan = [] @ ?e # ?post \<and> (\<forall>x \<in> set []. fd_sku x \<noteq> sku PC001)
        \<and> fd_sku ?e = sku PC001"
    by (simp add: sample_plan_demandForecast PC001_def)
  then have a: "getEffectiveDemand (Some sample_plan) PC001 = Fin 58"
    using t1 [THEN conjunct1, rule_format, of "[]" ?e ?post] by simp
  have "\<forall>x \<in> set (demandForecast (sample_plan\<lparr>demandForecast := []\<rparr>)). fd_sku x \<noteq> sku PC001"
    by simp
  then have b: "getEffectiveDemand (Some (sample_plan\<lparr>demandForecast := []\<rparr>)) PC001 = Fin 40"
    using t2 [THEN conjunct2, THEN conjunct1] by (simp add: PC001_def)
  have c: "getEffectiveDemand None PC001 = Fin 40"
    using t1 [THEN conjunct2, THEN conjunct2, THEN conjunct1] by (simp add: PC001_def)
  have d: "inventoryPolicy (Some sample_plan) PC001
       = inventoryPolicy None (PC001\<lparr>forecast_demand := Fin 58\<rparr>)"
    using t1 [THEN conjunct2, THEN conjunct2, THEN conjunct2, THEN conjunct1] a by simp
  have e: "optimalInventory (inventoryPolicy None (PC001\<lparr>forecast_demand := Fin 58\<rparr>)) = Fin 70"
    using t3 [THEN conjunct2, THEN conjunct2, THEN conjunct2, THEN conjunct2, THEN conjunct2,
        THEN conjunct2, THEN conjunct1]
    by simp
  have f: "optimalInventory (inventoryPolicy None PC001) = Fin 48"
    using t1 [THEN conjunct2, THEN conjunct2, THEN conjunct2, THEN conjunct2, THEN conjunct2,
        THEN conjunct2, THEN conjunct1]
    by (simp add: PC001_def)
  show ?thesis using a b c d e f by simp
qed

text \<open>
  Claim C4. For each SKU, with \<open>d\<close> its effective demand, the entry of
  \<^verbatim>\<open>inventoryOptimization\<close> at the position of the SKU has
  \<open>optimalInventory = round (d \<cdot> 1.2)\<close>, \<open>safetyStock = round (d \<cdot> 0.3)\<close>,
  \<open>reorderPoint = round (d \<cdot> 0.8)\<close>, and its recommendation is \<^verbatim>\<open>INCREASE\<close> exactly when
  \<open>current_stock < d\<close> and \<^verbatim>\<open>OPTIMIZE\<close> otherwise.
\<close>

theorem inventory_policy:
  assumes "i < length (inventoryData st)"
  shows "length (opt_inventoryOptimization (handleSupplyChainOptimization host st))
           = length (inventoryData st)
    \<and> (let item = inventoryData st ! i;
            d = getEffectiveDemand (festivalPlan st) item;
            out = opt_inventoryOptimization (handleSupplyChainOptimization host st) ! i
        in io_sku out = sku item
         \<and> optimalInventory out = Math_round (num_mul d (Fin 1.2))
         \<and> safetyStock out = Math_round (num_mul d (Fin 0.3))
         \<and> reorderPoint out = Math_round (num_mul d (Fin 0.8))
         \<and> (recommendation out = INCREASE \<longleftrightarrow> num_lt (current_stock item) d)
         \<and> (recommendation out = OPTIMIZE \<longleftrightarrow> \<not> num_lt (current_stock item) d))"
  using assms
  by (simp add: handleSupplyChainOptimization_def inventoryOptimization_def inventoryPolicy_def Let_def)

theorem inventory_policy_witness:
  "(let out = opt_inventoryOptimization
        (handleSupplyChainOptimization (host_at 0)
           (initial_store\<lparr>festivalPlan := Some sample_plan\<rparr>)) ! 0
    in optimalInventory out = Fin 70 \<and> safetyStock out = Fin 17 \<and> reorderPoint out = Fin 46
     \<and> recommendation out = INCREASE)"
proof -
  let ?st = "initial_store\<lparr>festivalPlan := Some sample_plan\<rparr>"
  have len: "0 < length (inventoryData ?st)"
    by (simp add: initial_store_def)
  have d: "getEffectiveDemand (Some sample_plan) PC001 = Fin 58"
    by (simp add: getEffectiveDemand_def sample_plan_demandForecast PC001_def)
  have i: "inventoryData initial_store ! 0 = PC001"
    by (simp add: initial_store_def)
  have c: "current_stock PC001 = Fin 10"
    by (simp add: PC001_def)
  show ?thesis
    using inventory_policy [OF len, of "host_at 0"] by (simp add: Let_def d i c)
qed

section \<open>The two passes of the allocator\<close>

lemma reduce_sum_fin_aux:
  "list_all (\<lambda>x. \<exists>r. f x = Fin r) xs \<Longrightarrow>
   foldl (\<lambda>sum x. num_add sum (f x)) (Fin s) xs = Fin (s + sum_list (map (\<lambda>x. the_fin (f x)) xs))"
  by (induction xs arbitrary: s) (auto simp: add.assoc)

lemma reduce_sum_fin:
  "list_all (\<lambda>x. \<exists>r. f x = Fin r) xs \<Longrightarrow>
   reduce_sum f xs = Fin (sum_list (map (\<lambda>x. the_fin (f x)) xs))"
  using reduce_sum_fin_aux [of f xs 0] by (simp add: reduce_sum_def)

lemma valid_capacityE:
  "valid_capacity f \<Longrightarrow> \<exists>c. weekly_capacity f = Fin c \<and> 0 \<le> c"
  by (auto simp: valid_capacity_def split: number.splits)

lemma within_capacityE:
  "within_capacity a \<Longrightarrow> \<exists>x c. allocatedDemand a = Fin x \<and> capacity a = Fin c \<and> 0 \<le> x \<and> x \<le> c"
  by (auto simp: within_capacity_def split: number.splits)

lemma total_capacity_fin:
  "list_all valid_capacity fs \<Longrightarrow> reduce_sum weekly_capacity fs = Fin (capacity_total fs)"
  unfolding capacity_total_def
  by (rule reduce_sum_fin) (auto simp: list_all_iff dest: valid_capacityE)

lemma allocated_total_fin:
  "list_all within_capacity as \<Longrightarrow> reduce_sum allocatedDemand as = Fin (allocated_total as)"
  unfolding allocated_total_def
  by (rule reduce_sum_fin) (auto simp: list_all_iff dest: within_capacityE)

lemma Math_min_fin [simp]: "Math_min (Fin a) (Fin b) = Fin (min a b)"
  by (simp add: min_def)

lemma Math_min3_fin [simp]: "Math_min3 (Fin a) (Fin b) (Fin c) = Fin (min (min a b) c)"
  by (simp add: Math_min3_def)

lemma num_sub_fin [simp]: "num_sub (Fin a) (Fin b) = Fin (a - b)"
  by (simp add: num_sub_def)

lemma num_gt_fin [simp]: "num_gt (Fin a) (Fin b) \<longleftrightarrow> b < a"
  by (simp add: num_gt_def)

lemma num_le_fin [simp]: "num_le (Fin a) (Fin b) \<longleftrightarrow> a \<le> b"
  by (simp add: not_less)

lemma round_nonneg: "0 \<le> (x::rat) \<Longrightarrow> 0 \<le> (of_int \<lfloor>x + 1 / 2\<rfloor> :: rat)"
  by simp

lemma proportional_pass_fin:
  assumes "list_all valid_capacity fs" and "0 \<le> r" and "0 < T" and "0 \<le> P"
  shows "\<exists>as r'. proportional_pass (Fin P) (Fin T) (Fin r) fs = (as, Fin r')
           \<and> 0 \<le> r' \<and> list_all within_capacity as \<and> list_all utilization_consistent as
           \<and> r' + allocated_total as = r
           \<and> map capacity as = map weekly_capacity fs
           \<and> map factory as = map factory_location fs"
  using assms
proof (induction fs arbitrary: r)
  case Nil
  then show ?case by (simp add: allocated_total_def)
next
  case (Cons f fs)
  from Cons.prems obtain c where c: "weekly_capacity f = Fin c" "0 \<le> c"
    by (auto dest: valid_capacityE)
  define t :: rat where "t = of_int \<lfloor>P * (c / T) + 1 / 2\<rfloor>"
  have t: "0 \<le> t"
    unfolding t_def using Cons.prems c by (intro round_nonneg) simp
  define a where "a = min (min t c) r"
  have a: "0 \<le> a" "a \<le> c" "a \<le> r"
    using t c Cons.prems by (auto simp: a_def)
  from Cons.prems have "list_all valid_capacity fs" by simp
  moreover have "0 \<le> r - a" using a by simp
  ultimately obtain as r' where rec:
    "proportional_pass (Fin P) (Fin T) (Fin (r - a)) fs = (as, Fin r')"
    "0 \<le> r'" "list_all within_capacity as" "list_all utilization_consistent as"
    "r' + allocated_total as = r - a"
    "map capacity as = map weekly_capacity fs" "map factory as = map factory_location fs"
    using Cons.IH [of "r - a"] Cons.prems by blast
  have T: "T \<noteq> 0" using Cons.prems by simp
  let ?e = "\<lparr> factory = factory_location f, allocatedDemand = Fin a, capacity = Fin c,
             utilizationRate = utilization (Fin a) (Fin c) \<rparr>"
  have step: "proportional_pass (Fin P) (Fin T) (Fin r) (f # fs) = (?e # as, Fin r')"
    using rec(1) c T unfolding a_def t_def by (simp add: Let_def)
  have e: "within_capacity ?e" "utilization_consistent ?e"
    using a by (simp_all add: within_capacity_def utilization_consistent_def)
  have total: "r' + allocated_total (?e # as) = r"
    using rec(5) by (simp add: allocated_total_def)
  show ?case
    using step e total rec c by simp
qed

lemma redistribute_fin:
  assumes "list_all within_capacity as" and "0 \<le> r" and "list_all utilization_consistent as"
  shows "\<exists>as' r'. redistribute (Fin r) as = (as', Fin r')
           \<and> 0 \<le> r' \<and> list_all within_capacity as' \<and> list_all utilization_consistent as'
           \<and> r' + allocated_total as' = r + allocated_total as
           \<and> map capacity as' = map capacity as
           \<and> map factory as' = map factory as
           \<and> (r' = 0 \<or> list_all at_capacity as')"
  using assms
proof (induction as arbitrary: r)
  case Nil
  then show ?case by simp
next
  case (Cons a as)
  from Cons.prems obtain x c where xc: "allocatedDemand a = Fin x" "capacity a = Fin c" "0 \<le> x" "x \<le> c"
    by (auto dest: within_capacityE)
  have as: "list_all within_capacity as" "list_all utilization_consistent as"
    using Cons.prems by simp_all
  show ?case
  proof (cases "0 < c - x")
    case spare: True
    define d where "d = min (c - x) r"
    have d: "0 \<le> d" "d \<le> r" "x + d \<le> c"
      using spare Cons.prems by (auto simp: d_def)
    let ?a' = "a\<lparr>allocatedDemand := Fin (x + d), utilizationRate := utilization (Fin (x + d)) (Fin c)\<rparr>"
    have a': "within_capacity ?a'" "utilization_consistent ?a'"
      using xc d by (simp_all add: within_capacity_def utilization_consistent_def)
    have tot: "allocated_total (?a' # as) = d + allocated_total (a # as)"
      using xc by (simp add: allocated_total_def)
    show ?thesis
    proof (cases "r - d \<le> 0")
      case True
      then have zero: "r - d = 0" using d by simp
      have step: "redistribute (Fin r) (a # as) = (?a' # as, Fin (r - d))"
        using xc spare True unfolding d_def by (simp add: Let_def)
      show ?thesis
        unfolding step using zero a' as tot by simp
    next
      case False
      then have full: "d = c - x" unfolding d_def by linarith
      have "0 \<le> r - d" using d by simp
      then obtain as' r' where rec:
        "redistribute (Fin (r - d)) as = (as', Fin r')" "0 \<le> r'"
        "list_all within_capacity as'" "list_all utilization_consistent as'"
        "r' + allocated_total as' = r - d + allocated_total as"
        "map capacity as' = map capacity as" "map factory as' = map factory as"
        "r' = 0 \<or> list_all at_capacity as'"
        using Cons.IH [of "r - d"] as by blast
      have step: "redistribute (Fin r) (a # as) = (?a' # as', Fin r')"
        using xc spare False rec(1) unfolding d_def by (simp add: Let_def)
      have cap: "at_capacity ?a'" using full xc by (simp add: at_capacity_def)
      have tot': "r' + allocated_total (?a' # as') = r + allocated_total (a # as)"
        using rec(5) xc by (simp add: allocated_total_def)
      show ?thesis
        unfolding step using a' rec(2-4,6-8) cap tot' xc by auto
    qed
  next
    case False
    then have full: "x = c" using xc by simp
    obtain as' r' where rec:
        "redistribute (Fin r) as = (as', Fin r')" "0 \<le> r'"
        "list_all within_capacity as'" "list_all utilization_consistent as'"
        "r' + allocated_total as' = r + allocated_total as"
        "map capacity as' = map capacity as" "map factory as' = map factory as"
        "r' = 0 \<or> list_all at_capacity as'"
      using Cons.IH [of r] as Cons.prems by blast
    have step: "redistribute (Fin r) (a # as) = (a # as', Fin r')"
      using xc False rec(1) by (simp add: Let_def)
    have cap: "at_capacity a" using full xc by (simp add: at_capacity_def)
    have tot': "r' + allocated_total (a # as') = r + allocated_total (a # as)"
      using rec(5) by (simp add: allocated_total_def)
    show ?thesis
      unfolding step using Cons.prems rec(2-4,6-8) cap tot' by auto
  qed
qed

section \<open>Conservation of the allocation\<close>

text \<open>
  With finite capacities that are not negative, a finite production requirement and a
  total capacity above zero, both passes compute with finite numbers: every factory is
  allocated between zero and its capacity, what is allocated and what remains add up to
  the requirement, and the redistribution pass ends with nothing remaining or with every
  factory at capacity.
\<close>

lemma Math_max_zero_fin: "Math_max (Fin 0) x = Fin P \<Longrightarrow> 0 \<le> P"
  by (cases x) (auto split: if_splits)

lemma productionNeeded_nonneg: "productionNeeded st = Fin P \<Longrightarrow> 0 \<le> P"
  unfolding productionNeeded_def Let_def by (rule Math_max_zero_fin)

lemma allocated_le_capacity:
  "list_all within_capacity as \<Longrightarrow>
   allocated_total as \<le> sum_list (map the_fin (map capacity as))"
  unfolding allocated_total_def
  by (induction as) (auto dest!: within_capacityE)

lemma allocated_eq_capacity:
  "list_all at_capacity as \<Longrightarrow>
   allocated_total as = sum_list (map the_fin (map capacity as))"
  unfolding allocated_total_def
  by (induction as) (auto simp: at_capacity_def)

lemma capacity_total_map:
  "map capacity as = map weekly_capacity fs \<Longrightarrow>
   sum_list (map the_fin (map capacity as)) = capacity_total fs"
  by (simp add: capacity_total_def comp_def)

lemma productionAllocation_fin:
  assumes valid: "list_all valid_capacity (productionConstraints st)"
      and P: "productionNeeded st = Fin P"
      and T: "0 < capacity_total (productionConstraints st)"
  shows "\<exists>as r. productionAllocation st = as \<and> 0 \<le> r \<and> list_all within_capacity as
           \<and> list_all utilization_consistent as
           \<and> r + allocated_total as = P
           \<and> map capacity as = map weekly_capacity (productionConstraints st)
           \<and> map factory as = map factory_location (productionConstraints st)
           \<and> (r = 0 \<or> list_all at_capacity as)"
proof -
  let ?fs = "productionConstraints st"
  have tc: "totalCapacity st = Fin (capacity_total ?fs)"
    unfolding totalCapacity_def using valid by (rule total_capacity_fin)
  have P0: "0 \<le> P" using P by (rule productionNeeded_nonneg)
  obtain as r where p1:
    "proportional_pass (Fin P) (Fin (capacity_total ?fs)) (Fin P) ?fs = (as, Fin r)"
    "0 \<le> r" "list_all within_capacity as" "list_all utilization_consistent as"
    "r + allocated_total as = P"
    "map capacity as = map weekly_capacity ?fs" "map factory as = map factory_location ?fs"
    using proportional_pass_fin [OF valid P0 T P0] by blast
  show ?thesis
  proof (cases "0 < r")
    case False
    then have "r = 0" using p1(2) by simp
    moreover have "productionAllocation st = as"
      using False p1(1) by (simp add: productionAllocation_def P tc)
    ultimately show ?thesis using p1 by simp
  next
    case True
    obtain as' r' where p2:
      "redistribute (Fin r) as = (as', Fin r')" "0 \<le> r'"
      "list_all within_capacity as'" "list_all utilization_consistent as'"
      "r' + allocated_total as' = r + allocated_total as"
      "map capacity as' = map capacity as" "map factory as' = map factory as"
      "r' = 0 \<or> list_all at_capacity as'"
      using redistribute_fin [OF p1(3,2,4)] by blast
    have "productionAllocation st = as'"
      using True p1(1) p2(1) by (simp add: productionAllocation_def P tc)
    then show ?thesis using p1 p2 by auto
  qed
qed

lemma allocation_conservation:
  assumes valid: "list_all valid_capacity (productionConstraints st)"
      and P: "productionNeeded st = Fin P"
      and T: "0 < capacity_total (productionConstraints st)"
  shows "totalCapacity st = Fin (capacity_total (productionConstraints st))
       \<and> (\<exists>S. reduce_sum allocatedDemand (productionAllocation st) = Fin S
              \<and> S \<le> capacity_total (productionConstraints st) \<and> S \<le> P
              \<and> (P \<le> capacity_total (productionConstraints st) \<longrightarrow> S = P))"
proof -
  let ?fs = "productionConstraints st"
  let ?as = "productionAllocation st"
  have tc: "totalCapacity st = Fin (capacity_total ?fs)"
    unfolding totalCapacity_def using valid by (rule total_capacity_fin)
  obtain r where a: "0 \<le> r" "list_all within_capacity ?as"
    "r + allocated_total ?as = P" "map capacity ?as = map weekly_capacity ?fs"
    "r = 0 \<or> list_all at_capacity ?as"
    using productionAllocation_fin [OF assms] by blast
  have sum: "reduce_sum allocatedDemand ?as = Fin (allocated_total ?as)"
    using a(2) by (rule allocated_total_fin)
  have le_cap: "allocated_total ?as \<le> capacity_total ?fs"
    using allocated_le_capacity [OF a(2)] capacity_total_map [OF a(4)] by simp
  have le_P: "allocated_total ?as \<le> P" using a(1,3) by linarith
  have exact: "allocated_total ?as = P" if "P \<le> capacity_total ?fs"
  proof (cases "r = 0")
    case True
    then show ?thesis using a(3) by simp
  next
    case False
    then have "list_all at_capacity ?as" using a(5) by blast
    then have "allocated_total ?as = capacity_total ?fs"
      using allocated_eq_capacity capacity_total_map [OF a(4)] by simp
    then show ?thesis using that a(1,3) by linarith
  qed
  show ?thesis using tc sum le_cap le_P exact by blast
qed

text \<open>The initial state satisfies the hypotheses: 43 units are needed and allocated.\<close>

lemma allocation_conservation_initial:
  "reduce_sum allocatedDemand (productionAllocation initial_store) = Fin 43"
proof -
  have v: "list_all valid_capacity (productionConstraints initial_store)"
    by (simp add: sample_defs valid_capacity_def)
  have P: "productionNeeded initial_store = Fin 43"
    by (simp add: productionNeeded_def reduce_sum_def getEffectiveDemand_def sample_defs Let_def)
  have T: "0 < capacity_total (productionConstraints initial_store)"
    by (simp add: sample_defs capacity_total_def)
  have "(43::rat) \<le> capacity_total (productionConstraints initial_store)"
    by (simp add: sample_defs capacity_total_def)
  then show ?thesis
    using allocation_conservation [OF v P T] by auto
qed

text \<open>
  Two worked allocations. One SKU with stock 10 and forecast 40, festival-sensitive, and
  one factory of capacity 100: the plan gives a festival demand of 58, the policy an
  optimal inventory of 70, so 60 units are needed, and the factory is allocated the 60, a
  utilization of 60 percent. A requirement of 120 over the capacities 100 and 80: the
  targets 67 and 53 are under the capacities and add up to 120.
\<close>

lemma single_factory_allocation:
  "map festivalDemand (demandForecast (handleFestivalPlanning single_store)) = [Fin 58]
   \<and> map optimalInventory (inventoryOptimization single_store_planned) = [Fin 70]
   \<and> map recommendation (inventoryOptimization single_store_planned) = [INCREASE]
   \<and> productionNeeded single_store_planned = Fin 60
   \<and> productionAllocation single_store_planned =
       [\<lparr>factory = ''Delhi'', allocatedDemand = Fin 60, capacity = Fin 100,
         utilizationRate = Fin 60\<rparr>]"
proof -
  have plan: "handleFestivalPlanning single_store =
      \<lparr> demandForecast =
          [\<lparr>fd_sku = ''PC001'', baseDemand = Fin 40, festivalDemand = Fin 58,
            surgeFactor = Fin 1.45\<rparr>],
        productionSchedule =
          [\<lparr>ps_factory = ''Delhi'', weeklyCapacity = Fin 100, festivalCapacityNeeded = Fin 145,
            additionalShiftsRequired = Fin 2\<rparr>],
        inventoryBuildup =
          [\<lparr>ib_sku = ''PC001'', ib_currentStock = Fin 10, festivalRequirement = Fin 58,
            buildupNeeded = Fin 48, startDate = ''2025-09-15'', targetDate = ''2025-10-01''\<rparr>] \<rparr>"
    by (simp add: handleFestivalPlanning_def single_store_def sample_defs currentMultiplier_def
        num_or_def surge_def double_eval)
  show ?thesis
    unfolding single_store_planned_def plan by code_simp
qed

lemma two_factory_allocation:
  "proportional_pass (Fin 120) (Fin 180) (Fin 120) [factory_Delhi, factory_Pune] =
     ([\<lparr>factory = ''Delhi'', allocatedDemand = Fin 67, capacity = Fin 100,
        utilizationRate = Fin 67\<rparr>,
       \<lparr>factory = ''Pune'', allocatedDemand = Fin 53, capacity = Fin 80,
        utilizationRate = Fin 66.25\<rparr>], Fin 0)"
  by code_simp

text \<open>
  Claim C2. After both passes the allocated total is at most the total capacity and at
  most the requirement \<open>P\<close>, and it is \<open>P\<close> when the total capacity is at least \<open>P\<close>.
  The lemma \<open>allocation_conservation\<close> above is this statement for a total capacity
  above zero. With a single factory of capacity zero the capacity ratio is \<^verbatim>\<open>0 / 0\<close>: the
  allocation of the factory and the allocated total are \<^verbatim>\<open>NaN\<close>, which is neither at most
  the total capacity nor at most the requirement.
\<close>

theorem allocation_idle_only_factory:
  "totalCapacity idle_only_store = Fin 0
   \<and> productionNeeded idle_only_store = Fin 43
   \<and> map allocatedDemand (productionAllocation idle_only_store) = [NaN]
   \<and> reduce_sum allocatedDemand (productionAllocation idle_only_store) = NaN
   \<and> \<not> num_le (reduce_sum allocatedDemand (productionAllocation idle_only_store))
          (totalCapacity idle_only_store)
   \<and> \<not> num_le (reduce_sum allocatedDemand (productionAllocation idle_only_store))
          (productionNeeded idle_only_store)"
  by code_simp

section \<open>Utilization\<close>

lemma utilization_zero_capacity: "utilization a (Fin 0) \<noteq> Fin r"
  by (cases a) (auto simp: utilization_def)

lemma idle_factory_utilization:
  assumes valid: "list_all valid_capacity (productionConstraints st)"
      and P: "productionNeeded st = Fin P"
      and T: "0 < capacity_total (productionConstraints st)"
      and a: "a \<in> set (productionAllocation st)" "capacity a = Fin 0"
  shows "allocatedDemand a = Fin 0 \<and> utilizationRate a = NaN"
proof -
  have "within_capacity a" "utilization_consistent a"
    using productionAllocation_fin [OF valid P T] a(1) by (auto simp: list_all_iff)
  then show ?thesis
    using a(2) by (auto simp: within_capacity_def utilization_consistent_def utilization_def
        split: number.splits)
qed

text \<open>
  With the capacities of both factories of the initial state at zero, every capacity ratio
  is \<^verbatim>\<open>0 / 0\<close>: both allocations, the allocated total and the reported utilization are
  \<^verbatim>\<open>NaN\<close>.
\<close>

lemma both_factories_idle:
  "totalCapacity idle_both_store = Fin 0
   \<and> map allocatedDemand (productionAllocation idle_both_store) = [NaN, NaN]
   \<and> map utilizationRate (productionAllocation idle_both_store) = [NaN, NaN]
   \<and> reduce_sum allocatedDemand (productionAllocation idle_both_store) = NaN
   \<and> actualCapacityUtilization idle_both_store = NaN"
  by code_simp

text \<open>
  Claim C3. When the total weekly capacity is zero, and so when there is no factory, the
  reported \<^verbatim>\<open>capacityUtilization\<close> is zero. The code divides the allocated total by the
  total capacity without a test: without factories, whatever the other collections, and
  with a single factory of capacity zero the reported value is \<^verbatim>\<open>NaN\<close>.
\<close>

theorem capacity_utilization_no_capacity:
  "capacityUtilization (opt_performanceMetrics
     (handleSupplyChainOptimization host (st\<lparr>productionConstraints := []\<rparr>))) = NaN
   \<and> totalCapacity (st\<lparr>productionConstraints := []\<rparr>) = Fin 0
   \<and> capacityUtilization (opt_performanceMetrics
        (handleSupplyChainOptimization host idle_only_store)) = NaN
   \<and> totalCapacity idle_only_store = Fin 0"
proof -
  have a: "capacityUtilization (opt_performanceMetrics
     (handleSupplyChainOptimization host (st\<lparr>productionConstraints := []\<rparr>))) = NaN"
    by (simp add: handleSupplyChainOptimization_def performanceMetrics_def Let_def
        actualCapacityUtilization_def productionAllocation_def totalCapacity_def reduce_sum_def)
  have b: "totalCapacity (st\<lparr>productionConstraints := []\<rparr>) = Fin 0"
    by (simp add: totalCapacity_def reduce_sum_def)
  have c: "actualCapacityUtilization idle_only_store = NaN"
    by code_simp
  have d: "totalCapacity idle_only_store = Fin 0"
    by code_simp
  show ?thesis
    using a b c d
    by (simp add: handleSupplyChainOptimization_def performanceMetrics_def Let_def)
qed

text \<open>
  Claim C5. A factory of weekly capacity zero is allocated zero and reports a utilization
  rate of zero. In the initial state with the second factory idle, the idle factory is
  allocated zero, and its utilization rate, \<^verbatim>\<open>0 / 0 * 100\<close>, is \<^verbatim>\<open>NaN\<close>; when the idle
  factory is the only one, its allocation is \<^verbatim>\<open>NaN\<close> as well.
\<close>

theorem idle_factory_allocation:
  "productionAllocation idle_second_store =
     [\<lparr>factory = ''Delhi'', allocatedDemand = Fin 43, capacity = Fin 100,
       utilizationRate = Fin 43\<rparr>,
      \<lparr>factory = ''Pune'', allocatedDemand = Fin 0, capacity = Fin 0,
       utilizationRate = NaN\<rparr>]
   \<and> productionAllocation idle_only_store =
     [\<lparr>factory = ''Delhi'', allocatedDemand = NaN, capacity = Fin 0,
       utilizationRate = NaN\<rparr>]"
  by code_simp

section \<open>The festival planner\<close>

text \<open>
  Claim C6, as amended. Let \<open>m\<close> be the multiplier, defaulted to 1.35 when it is not a number
  or is zero. Every entry of the festival plan has \<open>surgeFactor = m\<close> for a
  festival-sensitive SKU and \<open>1\<close> otherwise,
  \<open>festivalDemand = round (forecast_demand \<cdot> surgeFactor)\<close> and
  \<open>buildupNeeded = max 0 (festivalDemand - current_stock)\<close>, and every entry of the
  production schedule has \<open>festivalCapacityNeeded = round (weekly_capacity \<cdot> m)\<close> and two
  additional shifts, the products and the difference being those of double precision,
  rounded to a double before \<open>round\<close> and \<open>max\<close> are applied.
\<close>

theorem festival_plan_entries:
  "(let m = (if festivalMultiplier st = NaN \<or> festivalMultiplier st = Fin 0 then Fin 1.35
             else festivalMultiplier st);
        plan = handleFestivalPlanning st in
     length (demandForecast plan) = length (inventoryData st)
   \<and> length (inventoryBuildup plan) = length (inventoryData st)
   \<and> length (productionSchedule plan) = length (productionConstraints st)
   \<and> (\<forall>i < length (inventoryData st).
        let item = inventoryData st ! i; e = demandForecast plan ! i; b = inventoryBuildup plan ! i in
          fd_sku e = sku item \<and> ib_sku b = sku item
        \<and> baseDemand e = forecast_demand item
        \<and> surgeFactor e = (if is_festival_sensitive item then m else Fin 1)
        \<and> festivalDemand e = Math_round (double_mul (forecast_demand item) (surgeFactor e))
        \<and> festivalRequirement b = festivalDemand e
        \<and> buildupNeeded b = Math_max (Fin 0) (double_sub (festivalDemand e) (current_stock item)))
   \<and> (\<forall>j < length (productionConstraints st).
        let c = productionConstraints st ! j; s = productionSchedule plan ! j in
          ps_factory s = factory_location c
        \<and> festivalCapacityNeeded s = Math_round (double_mul (weekly_capacity c) m)
        \<and> additionalShiftsRequired s = Fin 2))"
  by (auto simp: handleFestivalPlanning_def Let_def surge_def currentMultiplier_def
      num_or_defaulted)

theorem festival_plan_entries_witness:
  "(let plan = handleFestivalPlanning initial_store in
      surgeFactor (demandForecast plan ! 0) = Fin 1.45
    \<and> festivalDemand (demandForecast plan ! 0) = Fin 58
    \<and> buildupNeeded (inventoryBuildup plan ! 0) = Fin 48
    \<and> surgeFactor (demandForecast plan ! 1) = Fin 1
    \<and> festivalDemand (demandForecast plan ! 1) = Fin 25
    \<and> buildupNeeded (inventoryBuildup plan ! 1) = Fin 0
    \<and> festivalCapacityNeeded (productionSchedule plan ! 0) = Fin 145
    \<and> additionalShiftsRequired (productionSchedule plan ! 0) = Fin 2)
   \<and> (let plan = handleFestivalPlanning (initial_store\<lparr>festivalMultiplier := NaN\<rparr>) in
      surgeFactor (demandForecast plan ! 0) = Fin 1.35
    \<and> festivalDemand (demandForecast plan ! 0) = Fin 54)
   \<and> (let plan = handleFestivalPlanning (initial_store\<lparr>festivalMultiplier := Fin 2.3\<rparr>) in
      surgeFactor (demandForecast plan ! 0) = Fin 2.3
    \<and> festivalDemand (demandForecast plan ! 0) = Fin 92
    \<and> festivalDemand (demandForecast plan ! 1) = Fin 25
    \<and> festivalCapacityNeeded (productionSchedule plan ! 0) = Fin 230)"
proof -
  have len: "length (inventoryData initial_store) = Suc (Suc 0)"
    "length (productionConstraints initial_store) = Suc (Suc 0)"
    by (simp_all add: initial_store_def)
  have items: "inventoryData initial_store ! 0 = PC001" "inventoryData initial_store ! Suc 0 = NC001"
    "productionConstraints initial_store ! 0 = factory_Delhi"
    by (simp_all add: initial_store_def)
  have m: "festivalMultiplier initial_store = Fin 1.45"
    by (simp add: initial_store_def)
  have vals: "is_festival_sensitive PC001" "\<not> is_festival_sensitive NC001"
    "forecast_demand PC001 = Fin 40" "forecast_demand NC001 = Fin 25"
    "current_stock PC001 = Fin 10" "current_stock NC001 = Fin 25"
    "weekly_capacity factory_Delhi = Fin 100"
    by (simp_all add: PC001_def NC001_def factory_Delhi_def)
  have a: "(let plan = handleFestivalPlanning initial_store in
      surgeFactor (demandForecast plan ! 0) = Fin 1.45
    \<and> festivalDemand (demandForecast plan ! 0) = Fin 58
    \<and> buildupNeeded (inventoryBuildup plan ! 0) = Fin 48
    \<and> surgeFactor (demandForecast plan ! 1) = Fin 1
    \<and> festivalDemand (demandForecast plan ! 1) = Fin 25
    \<and> buildupNeeded (inventoryBuildup plan ! 1) = Fin 0
    \<and> festivalCapacityNeeded (productionSchedule plan ! 0) = Fin 145
    \<and> additionalShiftsRequired (productionSchedule plan ! 0) = Fin 2)"
    using festival_plan_entries [of initial_store]
    by (simp add: len items m vals All_less_Suc double_eval)
  have b: "(let plan = handleFestivalPlanning (initial_store\<lparr>festivalMultiplier := NaN\<rparr>) in
      surgeFactor (demandForecast plan ! 0) = Fin 1.35
    \<and> festivalDemand (demandForecast plan ! 0) = Fin 54)"
    using festival_plan_entries [of "initial_store\<lparr>festivalMultiplier := NaN\<rparr>"]
    by (simp add: len items vals All_less_Suc double_eval)
  have c: "(let plan = handleFestivalPlanning (initial_store\<lparr>festivalMultiplier := Fin 2.3\<rparr>) in
      surgeFactor (demandForecast plan ! 0) = Fin 2.3
    \<and> festivalDemand (demandForecast plan ! 0) = Fin 92
    \<and> festivalDemand (demandForecast plan ! 1) = Fin 25
    \<and> festivalCapacityNeeded (productionSchedule plan ! 0) = Fin 230)"
    using festival_plan_entries [of "initial_store\<lparr>festivalMultiplier := Fin 2.3\<rparr>"]
    by (simp add: len items vals All_less_Suc double_eval)
  show ?thesis
    using a b c by (rule conjI [OF _ conjI])
qed

text \<open>
  Claim C6, as stated, fails in two places. The multiplier is defaulted not only when it is
  not a number: the multiplier 0 is a number, and for it the plan of the initial state has
  the surge factor 1.35 and the festival demand 54 for the festival-sensitive first SKU,
  where the claim has 0 and \<open>round (40 \<cdot> 0) = 0\<close>. And the product is not the exact one: for
  a festival-sensitive SKU with a forecast of 50 and the multiplier 1.15 the festival
  demand is 57, the double nearest to 1.15 being below it, where \<open>round (50 \<cdot> 1.15)\<close> is 58.
\<close>

theorem festival_multiplier_zero_and_rounding:
  "is_festival_sensitive (inventoryData initial_store ! 0)
   \<and> forecast_demand (inventoryData initial_store ! 0) = Fin 40
   \<and> surgeFactor (demandForecast
         (handleFestivalPlanning (initial_store\<lparr>festivalMultiplier := Fin 0\<rparr>)) ! 0) = Fin 1.35
   \<and> festivalDemand (demandForecast
         (handleFestivalPlanning (initial_store\<lparr>festivalMultiplier := Fin 0\<rparr>)) ! 0) = Fin 54
   \<and> Math_round (num_mul (Fin 40) (Fin 0)) = Fin 0
   \<and> festivalDemand (demandForecast
         (handleFestivalPlanning
            (initial_store\<lparr>inventoryData := [PC001\<lparr>forecast_demand := Fin 50\<rparr>],
                            festivalMultiplier := Fin 1.15\<rparr>)) ! 0) = Fin 57
   \<and> Math_round (num_mul (Fin 50) (Fin 1.15)) = Fin 58"
  by (simp add: handleFestivalPlanning_def currentMultiplier_def num_or_def surge_def
      initial_store_def PC001_def double_eval)

section \<open>What a run depends on\<close>

text \<open>
  Claim C7, as amended. Two runs of the optimizer on the same store, whatever their hosts,
  agree on \<^verbatim>\<open>productionAllocation\<close>, \<^verbatim>\<open>inventoryOptimization\<close>, \<^verbatim>\<open>costAnalysis\<close> and
  \<^verbatim>\<open>performanceMetrics\<close>, and on every field of \<^verbatim>\<open>procurementPlan\<close> other than
  \<^verbatim>\<open>deliveryDate\<close>.
\<close>

theorem optimizer_deterministic_up_to_delivery_date:
  "(let a = handleSupplyChainOptimization h1 st; b = handleSupplyChainOptimization h2 st in
      opt_productionAllocation a = opt_productionAllocation b
    \<and> opt_inventoryOptimization a = opt_inventoryOptimization b
    \<and> opt_costAnalysis a = opt_costAnalysis b
    \<and> opt_performanceMetrics a = opt_performanceMetrics b
    \<and> map (\<lambda>p. p\<lparr>deliveryDate := []\<rparr>) (opt_procurementPlan a)
        = map (\<lambda>p. p\<lparr>deliveryDate := []\<rparr>) (opt_procurementPlan b))"
  by (simp add: handleSupplyChainOptimization_def procurementPlan_def Let_def)

text \<open>
  Claim C7, as stated, fails: \<^verbatim>\<open>deliveryDate\<close> is \<^verbatim>\<open>Date.now()\<close> plus the lead time of the
  supplier. Two runs on the initial state, the first on 2 November 2026 at midnight UTC
  and the second a day later, report different delivery dates.
\<close>

theorem optimizer_depends_on_clock:
  "map deliveryDate (opt_procurementPlan
      (handleSupplyChainOptimization (host_at 1793577600000) initial_store))
     = [''11/7/2026'', ''11/10/2026'']
   \<and> map deliveryDate (opt_procurementPlan
      (handleSupplyChainOptimization (host_at 1793664000000) initial_store))
     = [''11/8/2026'', ''11/11/2026'']
   \<and> handleSupplyChainOptimization (host_at 1793577600000) initial_store
     \<noteq> handleSupplyChainOptimization (host_at 1793664000000) initial_store"
proof -
  have a: "map deliveryDate (procurementPlan (host_at 1793577600000) initial_store)
     = [''11/7/2026'', ''11/10/2026'']"
    by code_simp
  have b: "map deliveryDate (procurementPlan (host_at 1793664000000) initial_store)
     = [''11/8/2026'', ''11/11/2026'']"
    by code_simp
  have "opt_procurementPlan (handleSupplyChainOptimization (host_at 1793577600000) initial_store)
     \<noteq> opt_procurementPlan (handleSupplyChainOptimization (host_at 1793664000000) initial_store)"
    using a b by (auto simp: handleSupplyChainOptimization_def)
  then have "handleSupplyChainOptimization (host_at 1793577600000) initial_store
     \<noteq> handleSupplyChainOptimization (host_at 1793664000000) initial_store"
    by auto
  then show ?thesis
    using a b by (simp add: handleSupplyChainOptimization_def)
qed

section \<open>The loop of the parser\<close>

lemma split_on_nonempty: "split_on c s \<noteq> []"
  by (induction s) (auto split: list.splits)

lemma parse_loop_concat:
  "parse_loop lines headers i acc =
     acc @ concat (map (\<lambda>k. parse_line headers k (lines ! k)) [i..<min (length lines) 10])"
proof (induction lines headers i acc rule: parse_loop.induct)
  case (1 lines headers i acc)
  show ?case
  proof (cases "i < length lines \<and> i < 10")
    case True
    then have "[i..<min (length lines) 10] = i # [i + 1..<min (length lines) 10]"
      by (simp add: upt_conv_Cons)
    moreover have "parse_loop lines headers i acc
        = parse_loop lines headers (i + 1) (acc @ parse_line headers i (lines ! i))"
      using True parse_loop.simps [of lines headers i acc] by auto
    ultimately show ?thesis
      using True "1.IH" by simp
  next
    case False
    then have "min (length lines) 10 \<le> i" by auto
    moreover have "parse_loop lines headers i acc = acc"
      using False parse_loop.simps [of lines headers i acc] by auto
    ultimately show ?thesis by simp
  qed
qed

lemma parsedData_concat:
  "parsedData text =
     (let lines = split_on (CHR 0x0A) text; headers = split_on (CHR '','') (lines ! 0)
      in concat (map (\<lambda>i. parse_line headers i (lines ! i)) [1..<min (length lines) 10]))"
  by (simp add: parsedData_def Let_def parse_loop_concat)

lemma length_parse_line: "length (parse_line headers i line) \<le> 1"
  by (simp add: parse_line_def Let_def)

lemma length_concat_le:
  "(\<And>x. length (f x) \<le> 1) \<Longrightarrow> length (concat (map f xs)) \<le> length xs"
proof (induction xs)
  case Nil
  then show ?case by simp
next
  case (Cons x xs)
  have "length (f x) \<le> 1" by (rule Cons.prems)
  with Cons show ?case by fastforce
qed

lemma length_parsedData: "length (parsedData text) \<le> 9"
proof -
  let ?lines = "split_on (CHR 0x0A) text"
  have "length (parsedData text) \<le> length [1..<min (length ?lines) 10]"
    unfolding parsedData_concat Let_def
    by (rule length_concat_le) (rule length_parse_line)
  then show ?thesis by simp
qed

lemma parsedData_first_lines:
  assumes "take 10 (split_on (CHR 0x0A) text') = take 10 (split_on (CHR 0x0A) text)"
  shows "parsedData text' = parsedData text"
proof -
  define g where "g ls = concat (map (\<lambda>i. parse_line (split_on (CHR '','') (ls ! 0)) i (ls ! i))
                    [1..<length ls])" for ls :: "string list"
  have "parsedData t = g (take 10 (split_on (CHR 0x0A) t))" for t
    unfolding parsedData_concat Let_def g_def
    by (intro arg_cong [where f = concat] map_cong) auto
  then show ?thesis using assms by simp
qed

section \<open>Properties of the parser\<close>

text \<open>
  Claim C9. The parser reads the first nine data lines of the file and no more: the
  records it stores come, in order, from the lines 1 to 9 that exist, so there are nine at
  most and two files with the same first ten lines give the same records; and what it
  stores replaces the previous collection, which has no influence on the result.
\<close>

theorem csv_first_nine_lines:
  "(let lines = split_on (CHR 0x0A) text; headers = split_on (CHR '','') (lines ! 0) in
      inventoryData (parseCSVFile text st)
        = concat (map (\<lambda>i. parse_line headers i (lines ! i)) [1..<min (length lines) 10]))
   \<and> length (inventoryData (parseCSVFile text st)) \<le> 9
   \<and> (take 10 (split_on (CHR 0x0A) text') = take 10 (split_on (CHR 0x0A) text)
        \<longrightarrow> inventoryData (parseCSVFile text' st') = inventoryData (parseCSVFile text st))
   \<and> parseCSVFile text (st\<lparr>inventoryData := previous\<rparr>) = parseCSVFile text st"
  using parsedData_concat [of "text"] length_parsedData [of "text"]
    parsedData_first_lines [of text' "text"]
  by (simp add: parseCSVFile_def)

theorem csv_first_nine_lines_witness:
  "map sku (inventoryData (parseCSVFile csv_eleven initial_store))
     = [''S1'', ''S2'', ''S4'', ''SKU-5'', ''S6'', ''S7'', ''S8'', ''S9'']
   \<and> inventoryData (parseCSVFile csv_eleven' (initial_store\<lparr>inventoryData := []\<rparr>))
     = inventoryData (parseCSVFile csv_eleven initial_store)
   \<and> length (split_on (CHR 0x0A) csv_eleven) = 12"
proof -
  have a: "take 10 (split_on (CHR 0x0A) csv_eleven') = take 10 (split_on (CHR 0x0A) csv_eleven)"
    by code_simp
  have b: "map sku (parsedData csv_eleven)
     = [''S1'', ''S2'', ''S4'', ''SKU-5'', ''S6'', ''S7'', ''S8'', ''S9'']"
    by code_simp
  have c: "length (split_on (CHR 0x0A) csv_eleven) = 12"
    by code_simp
  show ?thesis
    using csv_first_nine_lines [of csv_eleven initial_store csv_eleven'
        "initial_store\<lparr>inventoryData := []\<rparr>" "[]"] a b c
    by (simp add: parseCSVFile_def)
qed

lemma str_or_defaulted: "str_or v d = (case v of Some (c # cs) \<Rightarrow> c # cs | _ \<Rightarrow> d)"
  by (auto simp: str_or_def split: option.splits list.splits)

lemma isSensitive_iff:
  "isSensitive values = (case index values 12 of None \<Rightarrow> False | Some v \<Rightarrow> toLowerCase (trim v) = ''true'')"
proof (cases "index values 12")
  case None
  then show ?thesis by (simp add: isSensitive_def)
next
  case (Some v)
  show ?thesis
  proof (cases "v = []")
    case True
    then show ?thesis using Some by (simp add: isSensitive_def trim_def toLowerCase_def)
  next
    case False
    then show ?thesis using Some by (simp add: isSensitive_def)
  qed
qed

text \<open>
  Claim C8, as amended. A line with fewer fields than the header gives no record. A line
  with at least as many fields gives one record, in which each numeric field is its parsed
  value when the text parses to a number other than zero and the default of the field
  otherwise (0 for the stocks, demands and capacity, 10 for \<^verbatim>\<open>unit_cost\<close>, 0.25 for
  \<^verbatim>\<open>holding_cost_rate\<close>, 50 for \<^verbatim>\<open>stockout_penalty\<close>, 7 for \<^verbatim>\<open>lead_time_days\<close>, 90 for
  \<^verbatim>\<open>shelf_life_days\<close>), \<^verbatim>\<open>is_festival_sensitive\<close> holds exactly when the thirteenth field,
  trimmed and in lower case, is \<^verbatim>\<open>true\<close>, and an empty \<^verbatim>\<open>sku\<close>, \<^verbatim>\<open>warehouse\<close> or
  \<^verbatim>\<open>product_category\<close> becomes \<^verbatim>\<open>SKU-\<close> followed by the line number, \<^verbatim>\<open>Delhi\<close> or
  \<^verbatim>\<open>Snacks\<close>. Whatever the other lines of the file are, the record of each of the first
  nine data lines is in the result.
\<close>

theorem parse_line_fields:
  "(let values = split_on (CHR '','') line;
        num = (\<lambda>v d. if v = NaN \<or> v = Fin 0 then d else v);
        str = (\<lambda>v d. case v of Some (c # cs) \<Rightarrow> c # cs | _ \<Rightarrow> d)
    in if length values < length headers then parse_line headers i line = []
       else parse_line headers i line =
         [\<lparr> sku = str (index values 0) (''SKU-'' @ string_of_nat i),
            warehouse = str (index values 1) ''Delhi'',
            product_category = str (index values 2) ''Snacks'',
            current_stock = num (parseInt_field (index values 3)) (Fin 0),
            forecast_demand = num (parseInt_field (index values 4)) (Fin 0),
            actual_demand = num (parseInt_field (index values 5)) (Fin 0),
            production_capacity = num (parseInt_field (index values 6)) (Fin 0),
            unit_cost = num (parseFloat_field (index values 7)) (Fin 10.0),
            holding_cost_rate = num (parseFloat_field (index values 8)) (Fin 0.25),
            stockout_penalty = num (parseFloat_field (index values 9)) (Fin 50.0),
            lead_time_days = num (parseInt_field (index values 10)) (Fin 7),
            shelf_life_days = num (parseInt_field (index values 11)) (Fin 90),
            is_festival_sensitive =
              (case index values 12 of None \<Rightarrow> False | Some v \<Rightarrow> toLowerCase (trim v) = ''true'') \<rparr>])
   \<and> (let lines = split_on (CHR 0x0A) text; headers = split_on (CHR '','') (lines ! 0) in
        \<forall>k. 1 \<le> k \<and> k < length lines \<and> k < 10
          \<longrightarrow> set (parse_line headers k (lines ! k)) \<subseteq> set (parsedData text))"
proof -
  have a: "set (parse_line (split_on (CHR '','') (split_on (CHR 0x0A) text ! 0)) k
              (split_on (CHR 0x0A) text ! k)) \<subseteq> set (parsedData text)"
    if "1 \<le> k" "k < length (split_on (CHR 0x0A) text)" "k < 10" for k
  proof -
    have "k \<in> set [1..<min (length (split_on (CHR 0x0A) text)) 10]" using that by simp
    then show ?thesis
      unfolding parsedData_concat Let_def by (simp only: set_concat set_map) blast
  qed
  have b: "parse_line headers i line = []" if "length (split_on (CHR '','') line) < length headers"
    using that by (simp add: parse_line_def Let_def)
  have c: "parse_line headers i line = [parse_row i (split_on (CHR '','') line)]"
    if "\<not> length (split_on (CHR '','') line) < length headers"
    using that by (simp add: parse_line_def Let_def)
  have first: "(let values = split_on (CHR '','') line;
        num = (\<lambda>v d. if v = NaN \<or> v = Fin 0 then d else v);
        str = (\<lambda>v d. case v of Some (c # cs) \<Rightarrow> c # cs | _ \<Rightarrow> d)
    in if length values < length headers then parse_line headers i line = []
       else parse_line headers i line =
         [\<lparr> sku = str (index values 0) (''SKU-'' @ string_of_nat i),
            warehouse = str (index values 1) ''Delhi'',
            product_category = str (index values 2) ''Snacks'',
            current_stock = num (parseInt_field (index values 3)) (Fin 0),
            forecast_demand = num (parseInt_field (index values 4)) (Fin 0),
            actual_demand = num (parseInt_field (index values 5)) (Fin 0),
            production_capacity = num (parseInt_field (index values 6)) (Fin 0),
            unit_cost = num (parseFloat_field (index values 7)) (Fin 10.0),
            holding_cost_rate = num (parseFloat_field (index values 8)) (Fin 0.25),
            stockout_penalty = num (parseFloat_field (index values 9)) (Fin 50.0),
            lead_time_days = num (parseInt_field (index values 10)) (Fin 7),
            shelf_life_days = num (parseInt_field (index values 11)) (Fin 90),
            is_festival_sensitive =
              (case index values 12 of None \<Rightarrow> False | Some v \<Rightarrow> toLowerCase (trim v) = ''true'') \<rparr>])"
  proof (cases "length (split_on (CHR '','') line) < length headers")
    case True
    then show ?thesis by (simp add: b)
  next
    case False
    then show ?thesis
      unfolding Let_def c [OF False] parse_row_def num_or_defaulted str_or_defaulted isSensitive_iff
      by simp
  qed
  have second: "(let lines = split_on (CHR 0x0A) text; headers = split_on (CHR '','') (lines ! 0) in
        \<forall>k. 1 \<le> k \<and> k < length lines \<and> k < 10
          \<longrightarrow> set (parse_line headers k (lines ! k)) \<subseteq> set (parsedData text))"
    unfolding Let_def using a by blast
  show ?thesis
    using first second by (rule conjI)
qed

theorem parse_line_fields_witness:
  "parse_line (split_on (CHR '','') csv_header) 1 csv_zero_line =
     [\<lparr> sku = ''SKU9'', warehouse = ''Pune'', product_category = ''Oil'',
        current_stock = Fin 5, forecast_demand = Fin 6, actual_demand = Fin 7,
        production_capacity = Fin 8, unit_cost = Fin 10, holding_cost_rate = Fin 0.25,
        stockout_penalty = Fin 50, lead_time_days = Fin 7, shelf_life_days = Fin 90,
        is_festival_sensitive = True \<rparr>]
   \<and> parse_line (split_on (CHR '','') csv_header) 2 ''SKU10,Pune'' = []
   \<and> set (parse_line (split_on (CHR '','') csv_header) 1 csv_zero_line) \<subseteq> set (parsedData csv_zero)"
proof -
  let ?h = "split_on (CHR '','') csv_header"
  have v: "split_on (CHR '','') csv_zero_line =
      [''SKU9'', ''Pune'', ''Oil'', ''5'', ''6'', ''7'', ''8'', ''0'', ''0'', ''0'', ''0'', ''0'', '' TRUE'']"
    by code_simp
  have h: "length ?h = 13" by code_simp
  have p: "parseInt ''5'' = Fin 5" "parseInt ''6'' = Fin 6" "parseInt ''7'' = Fin 7"
    "parseInt ''8'' = Fin 8" "parseInt ''0'' = Fin 0" "parseFloat ''0'' = Fin 0"
    by code_simp+
  have t: "toLowerCase (trim '' TRUE'') = ''true''" by code_simp
  have s: "length (split_on (CHR '','') ''SKU10,Pune'') = 2" by code_simp
  have l: "split_on (CHR 0x0A) csv_zero = [csv_header, csv_zero_line]" by code_simp
  have a: "parse_line ?h 1 csv_zero_line =
     [\<lparr> sku = ''SKU9'', warehouse = ''Pune'', product_category = ''Oil'',
        current_stock = Fin 5, forecast_demand = Fin 6, actual_demand = Fin 7,
        production_capacity = Fin 8, unit_cost = Fin 10, holding_cost_rate = Fin 0.25,
        stockout_penalty = Fin 50, lead_time_days = Fin 7, shelf_life_days = Fin 90,
        is_festival_sensitive = True \<rparr>]"
    using parse_line_fields [of csv_zero_line ?h 1 csv_zero]
    by (simp add: Let_def v h p t index_def parseInt_field_def parseFloat_field_def)
  have b: "parse_line ?h 2 ''SKU10,Pune'' = []"
    using parse_line_fields [of "''SKU10,Pune''" ?h 2 csv_zero]
    by (simp add: Let_def h s)
  have c: "set (parse_line ?h 1 csv_zero_line) \<subseteq> set (parsedData csv_zero)"
    using parse_line_fields [of csv_zero_line ?h 1 csv_zero]
    by (simp add: Let_def l)
  show ?thesis using a b c by blast
qed

text \<open>
  Claim C8, as stated, fails where a field parses to zero: the text \<^verbatim>\<open>0\<close> is parsable,
  with value 0, and yet \<^verbatim>\<open>unit_cost\<close>, \<^verbatim>\<open>holding_cost_rate\<close>, \<^verbatim>\<open>stockout_penalty\<close>,
  \<^verbatim>\<open>lead_time_days\<close> and \<^verbatim>\<open>shelf_life_days\<close> of the record are the defaults.
\<close>

theorem zero_fields_defaulted:
  "parseFloat ''0'' = Fin 0 \<and> parseInt ''0'' = Fin 0
   \<and> length (split_on (CHR '','') csv_header) \<le> length (split_on (CHR '','') csv_zero_line)
   \<and> map (\<lambda>r. [unit_cost r, holding_cost_rate r, stockout_penalty r, lead_time_days r,
                 shelf_life_days r]) (parsedData csv_zero)
      = [[Fin 10, Fin 0.25, Fin 50, Fin 7, Fin 90]]"
  by code_simp

section \<open>The per-warehouse list of the analysis\<close>

lemma filter_listed:
  "w \<in> S \<Longrightarrow>
   filter (\<lambda>item. warehouse item = w) (filter (\<lambda>item. warehouse item \<in> S) items)
     = filter (\<lambda>item. warehouse item = w) items"
  by (induction items) auto

lemma warehouseEntry_listed:
  "w \<in> S \<Longrightarrow>
   warehouseEntry (filter (\<lambda>item. warehouse item \<in> S) items) w = warehouseEntry items w"
  unfolding warehouseEntry_def by (simp only: filter_listed)

lemma warehouseEntry_no_items:
  assumes "\<forall>item \<in> set items. warehouse item \<noteq> w"
  shows "warehouseEntry items w = \<lparr>wp_warehouse = w, stockCoverage = Fin 0, wp_serviceLevel = Fin 100\<rparr>"
proof -
  have "filter (\<lambda>item. warehouse item = w) items = []"
    using assms by (simp add: filter_empty_conv)
  then show ?thesis
    by (simp add: warehouseEntry_def reduce_sum_def num_gt_def)
qed

text \<open>
  Claim C10. The per-warehouse list of the analysis has the three warehouses \<^verbatim>\<open>Delhi\<close>,
  \<^verbatim>\<open>Mumbai\<close> and \<^verbatim>\<open>Kolkata\<close>, in this order, whatever warehouses the SKUs name; the SKUs
  of any other warehouse have no influence on the list, which is the list of the collection
  without them; and a listed warehouse without SKUs reports a stock coverage of 0 and a
  service level of 100.
\<close>

theorem warehouse_performance_fixed:
  "map wp_warehouse (warehousePerformance st) = [''Delhi'', ''Mumbai'', ''Kolkata'']
   \<and> warehousePerformance
        (st\<lparr>inventoryData :=
              filter (\<lambda>item. warehouse item \<in> set [''Delhi'', ''Mumbai'', ''Kolkata''])
                (inventoryData st)\<rparr>)
       = warehousePerformance st
   \<and> (\<forall>k < 3. (\<forall>item \<in> set (inventoryData st).
                  warehouse item \<noteq> [''Delhi'', ''Mumbai'', ''Kolkata''] ! k)
        \<longrightarrow> stockCoverage (warehousePerformance st ! k) = Fin 0
          \<and> wp_serviceLevel (warehousePerformance st ! k) = Fin 100)"
proof -
  have a: "map wp_warehouse (warehousePerformance st) = [''Delhi'', ''Mumbai'', ''Kolkata'']"
    by (simp add: warehousePerformance_def warehouseEntry_def Let_def)
  have b: "warehousePerformance
        (st\<lparr>inventoryData :=
              filter (\<lambda>item. warehouse item \<in> set [''Delhi'', ''Mumbai'', ''Kolkata''])
                (inventoryData st)\<rparr>)
       = warehousePerformance st"
  proof -
    have m: "map (warehouseEntry (filter (\<lambda>item. warehouse item \<in> set ws) xs)) ws
           = map (warehouseEntry xs) ws" for ws xs
      by (rule map_cong [OF refl]) (rule warehouseEntry_listed)
    have sel: "inventoryData (st\<lparr>inventoryData := xs\<rparr>) = xs" for xs
      by simp
    show ?thesis
      unfolding warehousePerformance_def sel by (rule m)
  qed
  have c: "stockCoverage (warehousePerformance st ! k) = Fin 0
          \<and> wp_serviceLevel (warehousePerformance st ! k) = Fin 100"
    if "k < 3" "\<forall>item \<in> set (inventoryData st).
                  warehouse item \<noteq> [''Delhi'', ''Mumbai'', ''Kolkata''] ! k" for k
  proof -
    have "warehousePerformance st ! k
        = warehouseEntry (inventoryData st) ([''Delhi'', ''Mumbai'', ''Kolkata''] ! k)"
      unfolding warehousePerformance_def using that(1) by (intro nth_map) simp
    then show ?thesis
      using warehouseEntry_no_items [OF that(2)] by simp
  qed
  show ?thesis using a b c by blast
qed

theorem warehouse_performance_fixed_witness:
  "map wp_warehouse (warehousePerformance initial_store) = [''Delhi'', ''Mumbai'', ''Kolkata'']
   \<and> stockCoverage (warehousePerformance initial_store ! 2) = Fin 0
   \<and> wp_serviceLevel (warehousePerformance initial_store ! 2) = Fin 100
   \<and> warehousePerformance (initial_store\<lparr>inventoryData := [PC001, NC001\<lparr>warehouse := ''Pune''\<rparr>]\<rparr>)
       = warehousePerformance (initial_store\<lparr>inventoryData := [PC001]\<rparr>)"
proof -
  let ?st = "initial_store\<lparr>inventoryData := [PC001, NC001\<lparr>warehouse := ''Pune''\<rparr>]\<rparr>"
  have f: "filter (\<lambda>item. warehouse item \<in> set [''Delhi'', ''Mumbai'', ''Kolkata''])
             (inventoryData ?st) = [PC001]"
    by (simp add: sample_defs)
  have e: "\<forall>item \<in> set (inventoryData initial_store).
             warehouse item \<noteq> [''Delhi'', ''Mumbai'', ''Kolkata''] ! 2"
    by (simp add: sample_defs)
  have a: "stockCoverage (warehousePerformance initial_store ! 2) = Fin 0
         \<and> wp_serviceLevel (warehousePerformance initial_store ! 2) = Fin 100"
    using warehouse_performance_fixed [of initial_store] e by auto
  have b: "warehousePerformance ?st = warehousePerformance (initial_store\<lparr>inventoryData := [PC001]\<rparr>)"
    using warehouse_performance_fixed [of ?st] unfolding f by simp
  have c: "map wp_warehouse (warehousePerformance initial_store) = [''Delhi'', ''Mumbai'', ''Kolkata'']"
    using warehouse_performance_fixed [of initial_store] by blast
  show ?thesis using a b c by simp
qed

end
